theory Spec2Isabelle
  imports Complex_Main
begin

section \<open>Python strings\<close>

text \<open>
  A Python \<open>str\<close> is modelled as a HOL \<open>string\<close>, one \<open>char\<close> per code point, which
  restricts the model to code points below 256.  \<open>len\<close> is \<open>length\<close>, \<open>s[:n]\<close> is
  \<open>take n s\<close>, \<open>s[n:]\<close> is \<open>drop n s\<close>.
\<close>

definition DQ :: char where
  "DQ = CHR 0x22"

definition NL :: char where
  "NL = CHR 0x0A"

definition BSL :: char where
  "BSL = CHR 0x5C"

text \<open>
  \<open>str.isspace\<close> on one character: below 256 the whitespace code points are
  9 to 13, 28 to 32, 133 and 160.
\<close>

definition py_isspace :: "char \<Rightarrow> bool" where
  "py_isspace c \<longleftrightarrow>
     c \<in> set [CHR 0x09, CHR 0x0A, CHR 0x0B, CHR 0x0C, CHR 0x0D,
               CHR 0x1C, CHR 0x1D, CHR 0x1E, CHR 0x1F, CHR 0x20, CHR 0x85, CHR 0xA0]"

text \<open>\<open>s.strip()\<close>: whitespace removed at both ends.\<close>

definition py_strip :: "string \<Rightarrow> string" where
  "py_strip s = rev (dropWhile py_isspace (rev (dropWhile py_isspace s)))"

text \<open>
  \<open>s.split()\<close>: the maximal runs of non-whitespace characters, in order.  \<open>w\<close> is the
  word being read.
\<close>

fun split_acc :: "string \<Rightarrow> string \<Rightarrow> string list" where
  "split_acc w [] = (if w = [] then [] else [w])"
| "split_acc w (c # cs) =
     (if py_isspace c then (if w = [] then split_acc [] cs else w # split_acc [] cs)
      else split_acc (w @ [c]) cs)"

definition py_split :: "string \<Rightarrow> string list" where
  "py_split s = split_acc [] s"

text \<open>\<open>sep.join(xs)\<close>.\<close>

fun py_join :: "string \<Rightarrow> string list \<Rightarrow> string" where
  "py_join sep [] = []"
| "py_join sep [x] = x"
| "py_join sep (x # y # ys) = x @ sep @ py_join sep (y # ys)"

text \<open>\<open>s.startswith(p)\<close> and \<open>s.endswith(p)\<close>.\<close>

definition startswith :: "string \<Rightarrow> string \<Rightarrow> bool" where
  "startswith s p \<longleftrightarrow> take (length p) s = p"

definition endswith :: "string \<Rightarrow> string \<Rightarrow> bool" where
  "endswith s p \<longleftrightarrow> length p \<le> length s \<and> drop (length s - length p) s = p"

text \<open>
  \<open>s.replace(old, new)\<close>: non-overlapping occurrences of \<open>old\<close>, leftmost first.  The
  counter is the number of characters of the current occurrence still to be skipped.
  For an empty \<open>old\<close> Python puts \<open>new\<close> before every character and at the end.
\<close>

fun replace_aux :: "nat \<Rightarrow> string \<Rightarrow> string \<Rightarrow> string \<Rightarrow> string" where
  "replace_aux k old new [] = []"
| "replace_aux (Suc k) old new (c # cs) = replace_aux k old new cs"
| "replace_aux 0 old new (c # cs) =
     (if take (length old) (c # cs) = old
      then new @ replace_aux (length old - 1) old new cs
      else c # replace_aux 0 old new cs)"

definition py_replace :: "string \<Rightarrow> string \<Rightarrow> string \<Rightarrow> string" where
  "py_replace old new s =
     (if old = [] then new @ concat (map (\<lambda>c. c # new) s) else replace_aux 0 old new s)"

section \<open>storage\_service.py: chat titles\<close>

definition generate_chat_title :: "string \<Rightarrow> string" where
  "generate_chat_title query =
     (let words = take 4 (py_split query);
          title = py_join '' '' words;
          title = py_strip title;
          title = (if length title > 30 then take 27 title @ ''...'' else title)
      in if title \<noteq> [] then title else ''New Research'')"

text \<open>\<open>sep in s\<close>, \<open>s.split(sep)[0]\<close> and \<open>s.split(sep)[1]\<close> for a non-empty \<open>sep\<close>.\<close>

fun after_sub :: "string \<Rightarrow> string \<Rightarrow> string option" where
  "after_sub sep [] = None"
| "after_sub sep (c # cs) =
     (if startswith (c # cs) sep then Some (drop (length sep) (c # cs)) else after_sub sep cs)"

fun before_sub :: "string \<Rightarrow> string \<Rightarrow> string" where
  "before_sub sep [] = []"
| "before_sub sep (c # cs) =
     (if startswith (c # cs) sep then [] else c # before_sub sep cs)"

definition contains_sub :: "string \<Rightarrow> string \<Rightarrow> bool" where
  "contains_sub sep s \<longleftrightarrow> after_sub sep s \<noteq> None"

definition split_item0 :: "string \<Rightarrow> string \<Rightarrow> string" where
  "split_item0 sep s = before_sub sep s"

definition split_item1 :: "string \<Rightarrow> string \<Rightarrow> string" where
  "split_item1 sep s = (case after_sub sep s of None \<Rightarrow> [] | Some r \<Rightarrow> before_sub sep r)"

text \<open>\<open>s.lower()\<close> on code points below 256: A to Z, and 192 to 222 except 215.\<close>

definition upper_chars :: string where
  "upper_chars = ''ABCDEFGHIJKLMNOPQRSTUVWXYZ'' @
     [
        CHR 0xC0, CHR 0xC1, CHR 0xC2, CHR 0xC3, CHR 0xC4, CHR 0xC5, CHR 0xC6, CHR 0xC7,
        CHR 0xC8, CHR 0xC9, CHR 0xCA, CHR 0xCB, CHR 0xCC, CHR 0xCD, CHR 0xCE, CHR 0xCF,
        CHR 0xD0, CHR 0xD1, CHR 0xD2, CHR 0xD3, CHR 0xD4, CHR 0xD5, CHR 0xD6, CHR 0xD8,
        CHR 0xD9, CHR 0xDA, CHR 0xDB, CHR 0xDC, CHR 0xDD, CHR 0xDE]"

definition lower_chars :: string where
  "lower_chars = ''abcdefghijklmnopqrstuvwxyz'' @
     [
        CHR 0xE0, CHR 0xE1, CHR 0xE2, CHR 0xE3, CHR 0xE4, CHR 0xE5, CHR 0xE6, CHR 0xE7,
        CHR 0xE8, CHR 0xE9, CHR 0xEA, CHR 0xEB, CHR 0xEC, CHR 0xED, CHR 0xEE, CHR 0xEF,
        CHR 0xF0, CHR 0xF1, CHR 0xF2, CHR 0xF3, CHR 0xF4, CHR 0xF5, CHR 0xF6, CHR 0xF8,
        CHR 0xF9, CHR 0xFA, CHR 0xFB, CHR 0xFC, CHR 0xFD, CHR 0xFE]"

definition py_lower_char :: "char \<Rightarrow> char" where
  "py_lower_char c = (case map_of (zip upper_chars lower_chars) c of None \<Rightarrow> c | Some l \<Rightarrow> l)"

definition py_lower :: "string \<Rightarrow> string" where
  "py_lower s = map py_lower_char s"

text \<open>Decimal digits, \<open>int(s)\<close> on a string of digits, and \<open>str(n)\<close> for \<open>n \<ge> 0\<close>.\<close>

definition py_isdigit :: "char \<Rightarrow> bool" where
  "py_isdigit c \<longleftrightarrow> c \<in> set ''0123456789''"

definition digit_val :: "char \<Rightarrow> int" where
  "digit_val c =
     (case map_of (zip ''0123456789'' [0, 1, 2, 3, 4, 5, 6, 7, 8, 9]) c of
        None \<Rightarrow> 0
      | Some d \<Rightarrow> d)"

definition int_of_digits :: "string \<Rightarrow> int" where
  "int_of_digits ds = foldl (\<lambda>n c. 10 * n + digit_val c) 0 ds"

fun str_nat :: "nat \<Rightarrow> string" where
  "str_nat n =
     (if n < 10 then [''0123456789'' ! n]
      else str_nat (n div 10) @ [''0123456789'' ! (n mod 10)])"

definition unlines :: "string list \<Rightarrow> string" where
  "unlines ls = concat (map (\<lambda>l. l @ [NL]) ls)"

section \<open>Exceptions, JSON values and library functions\<close>

text \<open>
  An exception is a value carrying \<open>str(e)\<close>.  \<open>json.JSONDecodeError\<close> is the class
  that \<open>except json.JSONDecodeError\<close> catches; it is a subclass of \<open>ValueError\<close>, so
  \<open>except (json.JSONDecodeError, ValueError)\<close> catches the first two constructors.
  \<open>OtherException\<close> is every exception that is not a \<open>ValueError\<close>.
\<close>

datatype py_exn = JSONDecodeError string | ValueError string | OtherException string

fun exn_str :: "py_exn \<Rightarrow> string" where
  "exn_str (JSONDecodeError m) = m"
| "exn_str (ValueError m) = m"
| "exn_str (OtherException m) = m"

datatype json = JNull | JBool bool | JNum real | JStr string | JArr "json list"
  | JObj "(string \<times> json) list"

definition dict_get :: "(string \<times> json) list \<Rightarrow> string \<Rightarrow> json \<Rightarrow> json" where
  "dict_get kvs k d = (case map_of kvs k of None \<Rightarrow> d | Some v \<Rightarrow> v)"

section \<open>models.py\<close>

text \<open>
  The \<open>float\<close> fields are modelled as \<open>real\<close>: the pipeline stores and prints them and
  does no arithmetic that a claim depends on.  The \<open>timestamp\<close> fields are left out.
\<close>

record SentimentAnalysis =
  score :: real
  label :: string
  confidence :: real

record message =
  msg_id :: string
  msg_role :: string
  msg_content :: string

record source =
  src_id :: string
  src_title :: string
  src_url :: string
  src_subreddit :: string
  src_upvotes :: "int option"
  src_content :: string

record chat =
  chat_ident :: string
  chat_title :: string
  chat_messages :: "message list"
  chat_sources :: "source list"
  chat_subreddit_filter :: "string option"

section \<open>Collaborators\<close>

text \<open>
  One search result is a dictionary; a key can be absent, its value is a string.
\<close>

record search_hit =
  hit_title :: "string option"
  hit_url :: "string option"
  hit_content :: "string option"

text \<open>
  The answer of \<open>generate_content(prompt)\<close>: an object that is falsy or has no \<open>text\<close>
  attribute, one whose \<open>text\<close> raises when read, or one with a text.
\<close>

datatype gen_response = RespFalsy | RespTextRaises py_exn | RespText string

text \<open>
  A chunk of the streamed answer: \<open>None\<close> is an absent attribute.  An item of the stream
  is a chunk, or an exception raised while the stream is read.
\<close>

record chunk =
  chunk_text :: "string option"
  chunk_parts :: "string option list option"

datatype stream_item = ItemRaises py_exn | Chunk chunk

datatype stream_response = NotIterable | Stream "stream_item list"

record gemini =
  generate_content :: "string \<Rightarrow> py_exn + gen_response"
  generate_content_stream :: "string \<Rightarrow> py_exn + stream_response"

text \<open>
  The environment of a run: the two clients of \<open>RAGService\<close> (\<open>None\<close> when the key is
  not configured), the library functions the code calls (\<open>json.loads\<close>, pydantic's
  \<open>model_dump_json\<close> and field validation, where \<open>None\<close> is a validation error, the
  printing of a float by an f-string with and without \<open>:.0f\<close>), and the two default
  values \<open>str(uuid.uuid4())\<close> that models.py computes once, when the classes
  \<open>Message\<close> and \<open>Source\<close> are defined.  The search client takes the query and
  \<open>max_results\<close> and returns the value of the \<open>results\<close> key, if present.
\<close>

record env =
  tavily_client :: "(string \<Rightarrow> nat \<Rightarrow> py_exn + search_hit list option) option"
  gemini_model :: "gemini option"
  json_loads :: "string \<Rightarrow> py_exn + json"
  model_dump_json :: "SentimentAnalysis \<Rightarrow> string"
  validate_float :: "json \<Rightarrow> real option"
  validate_str :: "json \<Rightarrow> string option"
  str_float :: "real \<Rightarrow> string"
  format_float0 :: "real \<Rightarrow> string"
  message_id_default :: string
  source_id_default :: string

definition Message :: "env \<Rightarrow> string \<Rightarrow> string \<Rightarrow> message" where
  "Message E role content =
     \<lparr>msg_id = message_id_default E, msg_role = role, msg_content = content\<rparr>"

definition Source :: "env \<Rightarrow> string \<Rightarrow> string \<Rightarrow> string \<Rightarrow> int \<Rightarrow> string \<Rightarrow> source" where
  "Source E title url subreddit upvotes content =
     \<lparr>src_id = source_id_default E, src_title = title, src_url = url,
      src_subreddit = subreddit, src_upvotes = Some upvotes, src_content = content\<rparr>"

section \<open>storage\_service.py: the conversation store\<close>

type_synonym chats = "string \<rightharpoonup> chat"

definition get_chat :: "chats \<Rightarrow> string \<Rightarrow> chat option" where
  "get_chat cs cid = cs cid"

definition add_message :: "env \<Rightarrow> chats \<Rightarrow> string \<Rightarrow> string \<Rightarrow> string \<Rightarrow> chats \<times> message option" where
  "add_message E cs cid role content =
     (case get_chat cs cid of
        None \<Rightarrow> (cs, None)
      | Some c \<Rightarrow>
          (let m = Message E role content
           in (cs(cid \<mapsto> c\<lparr>chat_messages := chat_messages c @ [m]\<rparr>), Some m)))"

definition add_sources :: "chats \<Rightarrow> string \<Rightarrow> source list \<Rightarrow> chats \<times> bool" where
  "add_sources cs cid sources =
     (case get_chat cs cid of
        None \<Rightarrow> (cs, False)
      | Some c \<Rightarrow> (cs(cid \<mapsto> c\<lparr>chat_sources := chat_sources c @ sources\<rparr>), True))"

section \<open>rag\_service.py\<close>

subsection \<open>search\_reddit\<close>

definition search_query :: "string \<Rightarrow> string option \<Rightarrow> string" where
  "search_query query subreddit_filter =
     (case subreddit_filter of
        None \<Rightarrow> query @ '' site:reddit.com''
      | Some f \<Rightarrow>
          if f \<noteq> [] then query @ '' site:reddit.com/r/'' @ f
          else query @ '' site:reddit.com'')"

text \<open>The body of the \<open>try\<close> block, then the function with its handler.\<close>

definition search_reddit_try :: "env \<Rightarrow> string \<Rightarrow> string option \<Rightarrow> nat \<Rightarrow> py_exn + search_hit list" where
  "search_reddit_try E query subreddit_filter max_results =
     (case tavily_client E of
        None \<Rightarrow> Inl (ValueError ''Tavily client not initialized. Check TAVILY_API_KEY.'')
      | Some client \<Rightarrow>
          (case client (search_query query subreddit_filter) max_results of
             Inl e \<Rightarrow> Inl e
           | Inr response \<Rightarrow> Inr (case response of None \<Rightarrow> [] | Some rs \<Rightarrow> rs)))"

definition search_reddit :: "env \<Rightarrow> string \<Rightarrow> string option \<Rightarrow> nat \<Rightarrow> search_hit list" where
  "search_reddit E query subreddit_filter max_results =
     (case search_reddit_try E query subreddit_filter max_results of
        Inl e \<Rightarrow> []
      | Inr rs \<Rightarrow> rs)"

subsection \<open>extract\_subreddit\_from\_url and extract\_upvotes\_from\_content\<close>

text \<open>
  \<open>re.search(r'reddit\.com/r/([^/]+)', url)\<close>: the leftmost position where the literal
  is followed by a character other than \<open>/\<close>; the group is the longest run of such
  characters.
\<close>

fun extract_subreddit_from_url :: "string \<Rightarrow> string" where
  "extract_subreddit_from_url [] = ''unknown''"
| "extract_subreddit_from_url (c # cs) =
     (if startswith (c # cs) ''reddit.com/r/'' \<and>
         takeWhile (\<lambda>x. x \<noteq> CHR ''/'') (drop 13 (c # cs)) \<noteq> []
      then takeWhile (\<lambda>x. x \<noteq> CHR ''/'') (drop 13 (c # cs))
      else extract_subreddit_from_url cs)"

text \<open>
  \<open>int(s)\<close> on a string of decimal digits.  CPython from version 3.11 on refuses, with
  a \<open>ValueError\<close>, a string of more than 4300 digits (leading zeros count).
\<close>

definition int_limit_error :: "nat \<Rightarrow> py_exn" where
  "int_limit_error n =
     ValueError (''Exceeds the limit (4300 digits) for integer string conversion: value has ''
       @ str_nat n @ '' digits; use sys.set_int_max_str_digits() to increase the limit'')"

definition py_int :: "string \<Rightarrow> py_exn + int" where
  "py_int ds =
     (if length ds > 4300 then Inl (int_limit_error (length ds)) else Inr (int_of_digits ds))"

text \<open>
  \<open>re.search(r'(\d+)\s*(upvotes?|karma|points?)', content.lower())\<close>: at a digit, the
  longest run of digits, then the longest run of whitespace, must be followed by one of
  the words; giving back digits or whitespace cannot make a failed attempt succeed, so
  the search moves to the next position.  The group found is converted by \<open>int\<close>,
  which can raise.
\<close>

definition upvote_word :: "string \<Rightarrow> bool" where
  "upvote_word s \<longleftrightarrow>
     startswith s ''upvote'' \<or> startswith s ''karma'' \<or> startswith s ''point''"

fun search_upvotes :: "string \<Rightarrow> py_exn + int" where
  "search_upvotes [] = Inr 0"
| "search_upvotes (c # cs) =
     (if py_isdigit c \<and>
         upvote_word (dropWhile py_isspace (dropWhile py_isdigit (c # cs)))
      then py_int (takeWhile py_isdigit (c # cs))
      else search_upvotes cs)"

definition extract_upvotes_from_content :: "string \<Rightarrow> py_exn + int" where
  "extract_upvotes_from_content content = search_upvotes (py_lower content)"

subsection \<open>analyze\_sentiment\<close>

definition default_verdict :: "real \<Rightarrow> SentimentAnalysis" where
  "default_verdict c = \<lparr>score = 50, label = ''Neutral'', confidence = c\<rparr>"

definition sentiment_prompt :: "string \<Rightarrow> string" where
  "sentiment_prompt combined_text =
     NL # unlines
       [''Analyze the sentiment of the following text and provide:'',
        ''1. A sentiment score from 0-100 (0=very negative, 50=neutral, 100=very positive)'',
        ''2. A sentiment label (Very Negative, Negative, Neutral, Positive, Very Positive)'',
        ''3. A confidence score from 0-1'',
        [],
        ''Text: '' @ take 2000 combined_text,
        [],
        ''Respond only with a JSON object in this exact format:'',
        ''{'',
        ''    '' @ [DQ] @ ''score'' @ [DQ] @ '': <number 0-100>,'',
        ''    '' @ [DQ] @ ''label'' @ [DQ] @ '': '' @ [DQ] @ ''<sentiment label>'' @ [DQ] @ '','',
        ''    '' @ [DQ] @ ''confidence'' @ [DQ] @ '': <number 0-1>'',
        ''}'']"

text \<open>The removal of a markdown code fence around the answer.\<close>

definition strip_fences :: "string \<Rightarrow> string" where
  "strip_fences response_text =
     (if contains_sub ''```json'' response_text
      then py_strip (split_item0 ''```'' (split_item1 ''```json'' response_text))
      else if contains_sub ''```'' response_text
      then py_strip (split_item0 ''```'' (split_item1 ''```'' response_text))
      else response_text)"

text \<open>
  The inner \<open>try\<close>: only a \<open>JSONDecodeError\<close> is handled here.  \<open>.get\<close> on a parsed
  value that is not a dictionary raises \<open>AttributeError\<close>, and a field that fails
  validation raises pydantic's \<open>ValidationError\<close>; both leave the inner \<open>try\<close>.
\<close>

definition parse_sentiment :: "env \<Rightarrow> string \<Rightarrow> py_exn + SentimentAnalysis" where
  "parse_sentiment E response_text =
     (case json_loads E (strip_fences response_text) of
        Inl (JSONDecodeError m) \<Rightarrow> Inr (default_verdict 0.3)
      | Inl (ValueError m) \<Rightarrow> Inl (ValueError m)
      | Inl (OtherException m) \<Rightarrow> Inl (OtherException m)
      | Inr (JObj sentiment_data) \<Rightarrow>
          (case (validate_float E (dict_get sentiment_data ''score'' (JNum 50)),
                 validate_str E (dict_get sentiment_data ''label'' (JStr ''Neutral'')),
                 validate_float E (dict_get sentiment_data ''confidence'' (JNum 0.5))) of
             (Some s, Some l, Some c) \<Rightarrow> Inr \<lparr>score = s, label = l, confidence = c\<rparr>
           | _ \<Rightarrow> Inl (ValueError ''validation error for SentimentAnalysis''))
      | Inr _ \<Rightarrow> Inl (OtherException ''object has no attribute get''))"

text \<open>
  The body of the outer \<open>try\<close>.  The second component is the list of prompts sent to
  the model by \<open>generate_content\<close>.
\<close>

definition analyze_sentiment_try :: "env \<Rightarrow> string list \<Rightarrow> (py_exn + SentimentAnalysis) \<times> string list" where
  "analyze_sentiment_try E texts =
     (case gemini_model E of
        None \<Rightarrow> (Inl (ValueError ''Gemini model not initialized. Check GEMINI_API_KEY.''), [])
      | Some m \<Rightarrow>
          (let combined_text = py_join '' '' (take 5 texts)
           in if py_strip combined_text = [] then (Inr (default_verdict 0.0), [])
              else
                (case generate_content m (sentiment_prompt combined_text) of
                   Inl e \<Rightarrow> (Inl e, [sentiment_prompt combined_text])
                 | Inr RespFalsy \<Rightarrow>
                     (Inr (default_verdict 0.0), [sentiment_prompt combined_text])
                 | Inr (RespTextRaises e) \<Rightarrow> (Inl e, [sentiment_prompt combined_text])
                 | Inr (RespText t) \<Rightarrow>
                     (parse_sentiment E (py_strip t), [sentiment_prompt combined_text]))))"

definition analyze_sentiment :: "env \<Rightarrow> string list \<Rightarrow> SentimentAnalysis \<times> string list" where
  "analyze_sentiment E texts =
     (case analyze_sentiment_try E texts of
        (Inl e, calls) \<Rightarrow> (default_verdict 0.0, calls)
      | (Inr v, calls) \<Rightarrow> (v, calls))"

subsection \<open>generate\_sentiment\_report\<close>

definition dict_get_str :: "string option \<Rightarrow> string \<Rightarrow> string" where
  "dict_get_str v d = (case v of None \<Rightarrow> d | Some x \<Rightarrow> x)"

definition context_part :: "nat \<Rightarrow> string \<Rightarrow> string \<Rightarrow> string \<Rightarrow> string" where
  "context_part i title subreddit content =
     NL # unlines
       [''Source ['' @ str_nat (i + 1) @ '']: '' @ title,
        ''Subreddit: r/'' @ subreddit,
        ''Content: '' @ take 500 content @ ''...'']"

text \<open>
  A \<open>for\<close> loop whose body can raise: the results of the body in order, or the first
  exception, which ends the loop.
\<close>

fun for_each :: "('a \<Rightarrow> py_exn + 'b) \<Rightarrow> 'a list \<Rightarrow> py_exn + 'b list" where
  "for_each f [] = Inr []"
| "for_each f (x # xs) =
     (case f x of
        Inl e \<Rightarrow> Inl e
      | Inr y \<Rightarrow> (case for_each f xs of Inl e \<Rightarrow> Inl e | Inr ys \<Rightarrow> Inr (y # ys)))"

text \<open>
  The body of the loop over \<open>enumerate(search_results[:8])\<close>: the source and the
  context part of one result.  The conversion of the upvote count can raise.
\<close>

definition prepare_one :: "env \<Rightarrow> nat \<times> search_hit \<Rightarrow> py_exn + source \<times> string" where
  "prepare_one E ir =
     (case ir of (i, result) \<Rightarrow>
        (let title = dict_get_str (hit_title result) ''No Title'';
             content = dict_get_str (hit_content result) [];
             url = dict_get_str (hit_url result) [];
             subreddit = extract_subreddit_from_url url
         in case extract_upvotes_from_content content of
              Inl e \<Rightarrow> Inl e
            | Inr upvotes \<Rightarrow>
                Inr (Source E title url subreddit upvotes (take 1000 content),
                     context_part i title subreddit content)))"

text \<open>
  The loop: the pairs of \<open>sources\<close> and \<open>context_parts\<close>, in order, or the exception
  that left it.
\<close>

definition prepare_context :: "env \<Rightarrow> search_hit list \<Rightarrow> py_exn + (source \<times> string) list" where
  "prepare_context E search_results =
     for_each (prepare_one E) (enumerate 0 (take 8 search_results))"

definition sentiment_texts :: "search_hit list \<Rightarrow> string list" where
  "sentiment_texts search_results =
     map (\<lambda>result. dict_get_str (hit_content result) []) (take 5 search_results)"

definition system_prompt :: "env \<Rightarrow> string \<Rightarrow> string \<Rightarrow> SentimentAnalysis \<Rightarrow> string" where
  "system_prompt E query context sentiment =
     NL # unlines
       [''You are a social listening analyst. Analyze the following Reddit discussions about ''
          @ [DQ] @ query @ [DQ] @ '' and provide comprehensive insights.'',
        [],
        ''Context from Reddit:'',
        context,
        [],
        ''The overall sentiment score for '' @ [DQ] @ query @ [DQ] @ '' is ''
          @ str_float E (score sentiment) @ ''/100 ('' @ label sentiment @ '') with ''
          @ format_float0 E (confidence sentiment * 100) @ ''% confidence.'',
        [],
        ''You MUST follow this exact structure in your response:'',
        [],
        ''**Sentiment Explanation:** '',
        ''Explain why the sentiment score is '' @ str_float E (score sentiment) @ ''/100 (''
          @ label sentiment @ ''). What specific aspects of '' @ [DQ] @ query @ [DQ]
          @ '' drive this sentiment? What are the main factors that led to this ''
          @ py_lower (label sentiment) @ '' assessment? (2-3 sentences)'',
        [],
        ''**Direct Answer:** '',
        ''Provide a 2-3 sentence summary of the overall sentiment about '' @ [DQ] @ query
          @ [DQ] @ '' on Reddit based on the discussions analyzed.'',
        [],
        ''**Key Sentiment Drivers:** '',
        ''Explain WHY people feel this way. Provide a bulleted list of the main factors driving the sentiment:'',
        ''- Driver 1 (with citation [X] if referencing a specific source)'',
        ''- Driver 2 (with citation [X] if referencing a specific source)'',
        ''- Driver 3 (with citation [X] if referencing a specific source)'',
        [],
        ''**Contradicting Views:** '',
        ''What are the minority opinions or dissenting views? What do critics or skeptics say?'',
        ''- Contradicting point 1 (with citation [X] if referencing a specific source)'',
        ''- Contradicting point 2 (with citation [X] if referencing a specific source)'',
        [],
        ''Use citations like [1], [2], etc., to reference the sources provided above. Be concise, data-driven, and specific in your analysis.'']"

text \<open>The wire frames.  \<open>escape_text\<close> is the escaping of a model fragment.\<close>

definition done_frame :: string where
  "done_frame = ''data: [DONE]'' @ [NL, NL]"

definition quoted_frame :: "string \<Rightarrow> string" where
  "quoted_frame s = ''data: '' @ [DQ] @ s @ [DQ] @ [NL, NL]"

definition escape_text :: "string \<Rightarrow> string" where
  "escape_text t = py_replace [NL] [BSL, CHR ''n''] (py_replace [DQ] [BSL, DQ] t)"

definition text_frame :: "string \<Rightarrow> string" where
  "text_frame t = quoted_frame (escape_text t)"

definition verdict_frame :: "env \<Rightarrow> SentimentAnalysis \<Rightarrow> string" where
  "verdict_frame E sentiment = ''data: '' @ model_dump_json E sentiment @ [NL, NL]"

text \<open>The frames of one chunk of the stream, and of the parts of a chunk.\<close>

definition parts_frames :: "string option list \<Rightarrow> string list" where
  "parts_frames ps =
     concat (map (\<lambda>p. case p of None \<Rightarrow> [] | Some t \<Rightarrow> if t \<noteq> [] then [text_frame t] else []) ps)"

definition chunk_frames :: "chunk \<Rightarrow> string list" where
  "chunk_frames c =
     (case chunk_text c of
        Some t \<Rightarrow>
          if t \<noteq> [] then [text_frame t]
          else (case chunk_parts c of None \<Rightarrow> [] | Some ps \<Rightarrow> parts_frames ps)
      | None \<Rightarrow> (case chunk_parts c of None \<Rightarrow> [] | Some ps \<Rightarrow> parts_frames ps))"

text \<open>
  The loop over the streamed answer: the frames yielded, and the exception that ended
  the loop, if any.
\<close>

fun stream_frames :: "stream_item list \<Rightarrow> string list \<times> py_exn option" where
  "stream_frames [] = ([], None)"
| "stream_frames (ItemRaises e # rest) = ([], Some e)"
| "stream_frames (Chunk c # rest) =
     (chunk_frames c @ fst (stream_frames rest), snd (stream_frames rest))"

text \<open>The inner \<open>try\<close> of the streaming part, with its handler.\<close>

definition gemini_error_frame :: "py_exn \<Rightarrow> string" where
  "gemini_error_frame e = quoted_frame (''Error calling Gemini API: '' @ exn_str e)"

definition stream_report :: "gemini \<Rightarrow> string \<Rightarrow> string list" where
  "stream_report m prompt =
     (case generate_content_stream m prompt of
        Inl e \<Rightarrow> [gemini_error_frame e]
      | Inr NotIterable \<Rightarrow> [gemini_error_frame (ValueError ''Gemini response is not iterable'')]
      | Inr (Stream items) \<Rightarrow>
          (case stream_frames items of
             (fs, Some e) \<Rightarrow> fs @ [gemini_error_frame e]
           | (fs, None) \<Rightarrow>
               fs @ (if length items = 0
                     then [quoted_frame ''No response generated. Please try again.'']
                     else [])))"

text \<open>
  The generator: \<open>Inl e\<close> when the code before the \<open>try\<close> raises, so that no frame is
  yielded; else the frames.
\<close>

definition generate_sentiment_report :: "env \<Rightarrow> string \<Rightarrow> search_hit list \<Rightarrow> string option \<Rightarrow> py_exn + string list" where
  "generate_sentiment_report E query search_results subreddit_filter =
     (case prepare_context E search_results of
        Inl e \<Rightarrow> Inl e
      | Inr prepared \<Rightarrow>
          (let context = py_join [NL, NL] (map snd prepared);
               sentiment = fst (analyze_sentiment E (sentiment_texts search_results));
               prompt = system_prompt E query context sentiment
           in Inr (verdict_frame E sentiment #
                (case gemini_model E of
                   None \<Rightarrow>
                     [quoted_frame (''Error generating report: '' @
                        ''Gemini model not initialized. Check GEMINI_API_KEY.''),
                      done_frame]
                 | Some m \<Rightarrow> stream_report m prompt @ [done_frame]))))"

section \<open>main.py: generate\_research\_stream\<close>

text \<open>
  The generators are modelled by the list of frames they yield when they are read to
  their end, as the streaming response does.  The pauses (\<open>asyncio.sleep\<close>), the
  printing of diagnostics and the writing of the store to its file are left out.  The
  values of a search result are strings.
\<close>

text \<open>
  The state of the loop over the chunks of the report: \<open>accumulated_content\<close> and
  \<open>sentiment_data\<close>.
\<close>

record stream_state =
  accumulated_content :: "string list"
  sentiment_data :: "json option"

definition is_verdict_json :: "json \<Rightarrow> bool" where
  "is_verdict_json parsed =
     (case parsed of
        JObj d \<Rightarrow> map_of d ''score'' \<noteq> None \<and> map_of d ''label'' \<noteq> None
      | _ \<Rightarrow> False)"

text \<open>The text of a frame's payload: quotes removed, then \<open>\n\<close> and \<open>\"\<close> unescaped.\<close>

definition decode_text :: "string \<Rightarrow> string" where
  "decode_text data =
     (let text_content = data;
          text_content =
            (if startswith text_content [DQ] \<and> endswith text_content [DQ]
             then butlast (tl text_content) else text_content)
      in py_replace [BSL, DQ] [DQ] (py_replace [BSL, CHR ''n''] [NL] text_content))"

definition accumulate :: "stream_state \<Rightarrow> string \<Rightarrow> stream_state" where
  "accumulate S data =
     (let text_content = decode_text data
      in if text_content \<noteq> [] \<and> text_content \<noteq> ''[DONE]''
         then S\<lparr>accumulated_content := accumulated_content S @ [text_content]\<rparr>
         else S)"

text \<open>
  The body of the loop for one chunk.  Every branch that returns a state yields the
  chunk unchanged; an exception of \<open>json.loads\<close> that is not a \<open>ValueError\<close> leaves the
  loop before the chunk is yielded.
\<close>

definition process_chunk :: "env \<Rightarrow> stream_state \<Rightarrow> string \<Rightarrow> py_exn + stream_state" where
  "process_chunk E S chunk =
     (if startswith chunk ''data: '' then
        (let data = py_strip (drop 6 chunk)
         in if data = ''[DONE]'' then Inr S
            else
              (case json_loads E data of
                 Inr parsed \<Rightarrow>
                   if is_verdict_json parsed then Inr (S\<lparr>sentiment_data := Some parsed\<rparr>)
                   else Inr (accumulate S data)
               | Inl (JSONDecodeError m) \<Rightarrow> Inr (accumulate S data)
               | Inl (ValueError m) \<Rightarrow> Inr (accumulate S data)
               | Inl (OtherException m) \<Rightarrow> Inl (OtherException m)))
      else Inr S)"

text \<open>
  The loop: the chunks yielded, and the final state or the exception that ended it.
\<close>

fun consume :: "env \<Rightarrow> stream_state \<Rightarrow> string list \<Rightarrow> string list \<times> (py_exn + stream_state)" where
  "consume E S [] = ([], Inr S)"
| "consume E S (chunk # rest) =
     (case process_chunk E S chunk of
        Inl e \<Rightarrow> ([], Inl e)
      | Inr S' \<Rightarrow> (chunk # fst (consume E S' rest), snd (consume E S' rest)))"

text \<open>
  The conversion of one search result to a source, after the stream, and the loop over
  \<open>search_results[:8]\<close>; the conversion of the upvote count can raise.
\<close>

definition make_source :: "env \<Rightarrow> search_hit \<Rightarrow> py_exn + source" where
  "make_source E result =
     (case extract_upvotes_from_content (dict_get_str (hit_content result) []) of
        Inl e \<Rightarrow> Inl e
      | Inr upvotes \<Rightarrow>
          Inr (Source E (dict_get_str (hit_title result) ''No Title'')
                 (dict_get_str (hit_url result) [])
                 (extract_subreddit_from_url (dict_get_str (hit_url result) []))
                 upvotes
                 (take 1000 (dict_get_str (hit_content result) []))))"

definition result_sources :: "env \<Rightarrow> search_hit list \<Rightarrow> py_exn + source list" where
  "result_sources E search_results = for_each (make_source E) (take 8 search_results)"

definition error_msg :: string where
  "error_msg = ''No relevant discussions found on Reddit.''"

text \<open>
  The generator, run to its end, from the search results on: the frames it yields, the
  store it leaves, and the exception caught by the handler \<open>except Exception as e\<close>, if
  any.  An exception of the report leaves the loop before any of its frames; an
  exception after the stream finds the assistant message already stored.
\<close>

definition research_run :: "env \<Rightarrow> chats \<Rightarrow> string \<Rightarrow> string \<Rightarrow> string option \<Rightarrow> search_hit list \<Rightarrow> string list \<times> chats \<times> py_exn option" where
  "research_run E cs cid query subreddit_filter search_results =
     (if search_results = [] then
        ([quoted_frame error_msg, done_frame],
         fst (add_message E cs cid ''assistant'' error_msg), None)
      else
        (case generate_sentiment_report E query search_results subreddit_filter of
           Inl e \<Rightarrow> ([quoted_frame (''Error: '' @ exn_str e), done_frame], cs, Some e)
         | Inr chunks \<Rightarrow>
             (case consume E \<lparr>accumulated_content = [], sentiment_data = None\<rparr> chunks of
                (out, Inl e) \<Rightarrow>
                  (out @ [quoted_frame (''Error: '' @ exn_str e), done_frame], cs, Some e)
              | (out, Inr S) \<Rightarrow>
                  (let full_content = py_strip (concat (accumulated_content S));
                       cs1 = (if full_content \<noteq> []
                              then fst (add_message E cs cid ''assistant'' full_content)
                              else fst (add_message E cs cid ''assistant''
                                          ''Report generated successfully''))
                   in case result_sources E search_results of
                        Inl e \<Rightarrow>
                          (out @ [quoted_frame (''Error: '' @ exn_str e), done_frame],
                           cs1, Some e)
                      | Inr sources \<Rightarrow> (out, fst (add_sources cs1 cid sources), None)))))"

text \<open>The frames and the store of a run, and the exception its handler caught.\<close>

definition research_stream :: "env \<Rightarrow> chats \<Rightarrow> string \<Rightarrow> string \<Rightarrow> string option \<Rightarrow> search_hit list \<Rightarrow> string list \<times> chats" where
  "research_stream E cs cid query subreddit_filter search_results =
     (fst (research_run E cs cid query subreddit_filter search_results),
      fst (snd (research_run E cs cid query subreddit_filter search_results)))"

definition research_fault :: "env \<Rightarrow> chats \<Rightarrow> string \<Rightarrow> string \<Rightarrow> string option \<Rightarrow> search_hit list \<Rightarrow> py_exn option" where
  "research_fault E cs cid query subreddit_filter search_results =
     snd (snd (research_run E cs cid query subreddit_filter search_results))"

definition generate_research_stream :: "env \<Rightarrow> chats \<Rightarrow> string \<Rightarrow> string \<Rightarrow> string option \<Rightarrow> string list \<times> chats" where
  "generate_research_stream E cs cid query subreddit_filter =
     research_stream E cs cid query subreddit_filter
       (search_reddit E query subreddit_filter 10)"

text \<open>
  A run completes successfully when no exception reaches the handler of
  \<open>generate_research_stream\<close>.
\<close>

definition completes_successfully :: "env \<Rightarrow> chats \<Rightarrow> string \<Rightarrow> string \<Rightarrow> string option \<Rightarrow> bool" where
  "completes_successfully E cs cid query subreddit_filter \<longleftrightarrow>
     research_fault E cs cid query subreddit_filter
       (search_reddit E query subreddit_filter 10) = None"

text \<open>
  The upvote counts of the first eight results can be converted: no count of more
  than 4300 digits.
\<close>

definition counts_readable :: "search_hit list \<Rightarrow> bool" where
  "counts_readable search_results \<longleftrightarrow>
     list_all (\<lambda>result.
        case extract_upvotes_from_content (dict_get_str (hit_content result) []) of
          Inl e \<Rightarrow> False
        | Inr n \<Rightarrow> True) (take 8 search_results)"

section \<open>Reading the wire stream\<close>

text \<open>
  The kinds of frame, as the loop of \<open>generate_research_stream\<close> tells them apart: the
  payload is the frame without its first six characters, stripped.
\<close>

definition frame_data :: "string \<Rightarrow> string" where
  "frame_data chunk = py_strip (drop 6 chunk)"

definition is_done_frame :: "string \<Rightarrow> bool" where
  "is_done_frame chunk \<longleftrightarrow> startswith chunk ''data: '' \<and> frame_data chunk = ''[DONE]''"

definition is_verdict_frame :: "env \<Rightarrow> string \<Rightarrow> bool" where
  "is_verdict_frame E chunk \<longleftrightarrow>
     startswith chunk ''data: '' \<and> frame_data chunk \<noteq> ''[DONE]'' \<and>
     (case json_loads E (frame_data chunk) of Inr parsed \<Rightarrow> is_verdict_json parsed | Inl e \<Rightarrow> False)"

definition is_text_frame :: "env \<Rightarrow> string \<Rightarrow> bool" where
  "is_text_frame E chunk \<longleftrightarrow>
     startswith chunk ''data: '' \<and> \<not> is_done_frame chunk \<and> \<not> is_verdict_frame E chunk"

definition decoded_payloads :: "env \<Rightarrow> string list \<Rightarrow> string list" where
  "decoded_payloads E frames = map (\<lambda>f. decode_text (frame_data f)) (filter (is_text_frame E) frames)"

text \<open>
  What the code relies on from the two libraries: \<open>model_dump_json\<close> prints a verdict as
  a JSON object in braces that \<open>json.loads\<close> reads back as a dictionary with the keys
  \<open>score\<close> and \<open>label\<close>, and \<open>json.loads\<close> on a text that starts with a double quote
  returns a string or raises \<open>JSONDecodeError\<close>.
\<close>

definition json_roundtrips :: "env \<Rightarrow> bool" where
  "json_roundtrips E \<longleftrightarrow>
     (\<forall>v. \<exists>body d. model_dump_json E v = CHR ''{'' # body @ ''}'' \<and>
              json_loads E (model_dump_json E v) = Inr (JObj d) \<and>
              map_of d ''score'' \<noteq> None \<and> map_of d ''label'' \<noteq> None) \<and>
     (\<forall>s. (\<exists>t. json_loads E (DQ # s) = Inr (JStr t)) \<or>
           (\<exists>m. json_loads E (DQ # s) = Inl (JSONDecodeError m)))"

section \<open>Concrete runs\<close>

text \<open>
  A small environment on which the pipeline is evaluated: a search client with two
  results, a model whose sentiment answer is not JSON and whose streamed report is one
  fragment, and library functions that behave as \<open>json.loads\<close> and pydantic do on the
  few texts that occur.
\<close>

definition demo_verdict_json :: string where
  "demo_verdict_json =
     ''{'' @ [DQ] @ ''score'' @ [DQ] @ '':50.0,'' @ [DQ] @ ''label'' @ [DQ] @ '':'' @ [DQ]
       @ ''Neutral'' @ [DQ] @ '','' @ [DQ] @ ''confidence'' @ [DQ] @ '':0.3}''"

definition demo_json_loads :: "string \<Rightarrow> py_exn + json" where
  "demo_json_loads s =
     (if s = demo_verdict_json
      then Inr (JObj [(''score'', JNum 50), (''label'', JStr ''Neutral''), (''confidence'', JNum 0.3)])
      else if s = ''[]'' then Inr (JArr [])
      else Inl (JSONDecodeError ''Expecting value''))"

definition demo_validate_float :: "json \<Rightarrow> real option" where
  "demo_validate_float j = (case j of JNum r \<Rightarrow> Some r | _ \<Rightarrow> None)"

definition demo_validate_str :: "json \<Rightarrow> string option" where
  "demo_validate_str j = (case j of JStr s \<Rightarrow> Some s | _ \<Rightarrow> None)"

definition demo_hits :: "search_hit list" where
  "demo_hits =
     [\<lparr>hit_title = Some ''iPhone 16 review'',
       hit_url = Some ''https://www.reddit.com/r/apple/comments/1'',
       hit_content = Some ''Great camera. 120 Upvotes''\<rparr>,
      \<lparr>hit_title = None,
       hit_url = Some ''https://example.com/x'',
       hit_content = Some ''Battery is bad''\<rparr>]"

definition demo_gemini :: gemini where
  "demo_gemini =
     \<lparr>generate_content = (\<lambda>prompt. Inr (RespText ''not json'')),
      generate_content_stream =
        (\<lambda>prompt. Inr (Stream [Chunk \<lparr>chunk_text = Some ''Hello '', chunk_parts = None\<rparr>]))\<rparr>"

definition demo_env :: env where
  "demo_env =
     \<lparr>tavily_client = Some (\<lambda>q n. Inr (Some demo_hits)),
      gemini_model = Some demo_gemini,
      json_loads = demo_json_loads,
      model_dump_json = (\<lambda>v. demo_verdict_json),
      validate_float = demo_validate_float,
      validate_str = demo_validate_str,
      str_float = (\<lambda>r. ''50.0''),
      format_float0 = (\<lambda>r. ''30''),
      message_id_default = ''6f1c'',
      source_id_default = ''a2b7''\<rparr>"

text \<open>The same with a search that finds nothing, that raises, and that is not configured.\<close>

definition demo_env_empty :: env where
  "demo_env_empty = demo_env\<lparr>tavily_client := Some (\<lambda>q n. Inr (Some []))\<rparr>"

definition demo_env_raising :: env where
  "demo_env_raising = demo_env\<lparr>tavily_client := Some (\<lambda>q n. Inl (OtherException ''timeout''))\<rparr>"

definition demo_env_unconfigured :: env where
  "demo_env_unconfigured = demo_env\<lparr>tavily_client := None\<rparr>"

text \<open>The same with a model that answers the sentiment prompt with a JSON array.\<close>

definition demo_env_array :: env where
  "demo_env_array =
     demo_env\<lparr>gemini_model :=
       Some (demo_gemini\<lparr>generate_content := (\<lambda>prompt. Inr (RespText ''[]''))\<rparr>)\<rparr>"

text \<open>A store with one conversation, holding the user's message.\<close>

definition demo_chat :: chat where
  "demo_chat =
     \<lparr>chat_ident = ''c1'', chat_title = ''iPhone 16 sentiment'',
      chat_messages = [\<lparr>msg_id = ''6f1c'', msg_role = ''user'', msg_content = ''iPhone 16 sentiment''\<rparr>],
      chat_sources = [], chat_subreddit_filter = None\<rparr>"

definition demo_chats :: chats where
  "demo_chats = Map.empty(''c1'' \<mapsto> demo_chat)"

text \<open>The same without a configured model, and a result list of ten results.\<close>

definition demo_env_no_model :: env where
  "demo_env_no_model = demo_env\<lparr>gemini_model := None\<rparr>"


text \<open>The same with a model whose \<open>generate_content\<close> raises.\<close>

definition demo_env_model_down :: env where
  "demo_env_model_down =
     demo_env\<lparr>gemini_model :=
       Some (demo_gemini\<lparr>generate_content := (\<lambda>prompt. Inl (OtherException ''503 unavailable''))\<rparr>)\<rparr>"



section \<open>Properties of the chat title\<close>

text \<open>
  The words of \<open>split\<close> are non-empty and free of whitespace, so the joined title starts
  and ends with a character that \<open>strip\<close> keeps.
\<close>

lemma split_acc_words:
  "\<forall>c\<in>set w. \<not> py_isspace c \<Longrightarrow> x \<in> set (split_acc w s) \<Longrightarrow>
     x \<noteq> [] \<and> (\<forall>c\<in>set x. \<not> py_isspace c)"
proof (induction s arbitrary: w)
  case Nil
  then show ?case by (auto split: if_splits)
next
  case (Cons c cs)
  show ?case
  proof (cases "py_isspace c")
    case True
    with Cons.prems have "x = w \<and> w \<noteq> [] \<or> x \<in> set (split_acc [] cs)"
      by (auto split: if_splits)
    then show ?thesis
      using Cons.IH [of "[]"] Cons.prems(1) by auto
  next
    case False
    with Cons.prems have "x \<in> set (split_acc (w @ [c]) cs)" by simp
    moreover have "\<forall>d\<in>set (w @ [c]). \<not> py_isspace d"
      using Cons.prems(1) False by auto
    ultimately show ?thesis using Cons.IH [of "w @ [c]"] by blast
  qed
qed

lemma py_split_words:
  "x \<in> set (py_split s) \<Longrightarrow> x \<noteq> [] \<and> (\<forall>c\<in>set x. \<not> py_isspace c)"
  unfolding py_split_def using split_acc_words [of "[]" x s] by simp

lemma py_join_ends:
  "\<forall>x\<in>set ws. x \<noteq> [] \<and> (\<forall>c\<in>set x. \<not> py_isspace c) \<Longrightarrow>
     py_join sep ws = [] \<or>
     (\<not> py_isspace (hd (py_join sep ws)) \<and> \<not> py_isspace (last (py_join sep ws)))"
proof (induction sep ws rule: py_join.induct)
  case (1 sep)
  then show ?case by simp
next
  case (2 sep x)
  then show ?case by (cases x) auto
next
  case (3 sep x y ys)
  then have x: "x \<noteq> []" "\<forall>c\<in>set x. \<not> py_isspace c" by auto
  from 3 have rest: "py_join sep (y # ys) \<noteq> [] \<and> \<not> py_isspace (last (py_join sep (y # ys)))"
    by (cases ys) auto
  from x have "\<not> py_isspace (hd x)" by (cases x) auto
  with x rest show ?case by (simp add: hd_append)
qed

lemma py_strip_id:
  "s = [] \<or> (\<not> py_isspace (hd s) \<and> \<not> py_isspace (last s)) \<Longrightarrow> py_strip s = s"
proof (cases s)
  case Nil
  then show ?thesis by (simp add: py_strip_def)
next
  case (Cons c cs)
  assume "s = [] \<or> (\<not> py_isspace (hd s) \<and> \<not> py_isspace (last s))"
  with Cons have h: "\<not> py_isspace c" and l: "\<not> py_isspace (last s)" by auto
  from h Cons have 1: "dropWhile py_isspace s = s" by simp
  from Cons obtain ys where ys: "rev s = last s # ys"
    by (metis list.distinct(1) rev.simps(2) rev_rev_ident snoc_eq_iff_butlast)
  from l have "dropWhile py_isspace (last s # ys) = last s # ys" by simp
  with ys have "dropWhile py_isspace (rev s) = rev s" by metis
  with 1 show ?thesis by (simp add: py_strip_def)
qed

lemma title_words_strip:
  "py_strip (py_join '' '' (take 4 (py_split q))) = py_join '' '' (take 4 (py_split q))"
proof -
  have "\<forall>x\<in>set (take 4 (py_split q)). x \<noteq> [] \<and> (\<forall>c\<in>set x. \<not> py_isspace c)"
    using py_split_words by (meson in_set_takeD)
  from py_join_ends [OF this] show ?thesis by (rule py_strip_id)
qed

text \<open>
  C10: for every query the generated chat title is non-empty and at most 30 characters
  long.  It is the first four whitespace-separated words of the query joined by single
  spaces; when that is longer than 30 characters it is its first 27 characters followed
  by three dots, and when it is empty the title is the literal \<open>New Research\<close>.
\<close>

theorem generate_chat_title_bounded:
  "generate_chat_title q \<noteq> [] \<and> length (generate_chat_title q) \<le> 30 \<and>
   generate_chat_title q =
     (let t = py_join '' '' (take 4 (py_split q))
      in if t = [] then ''New Research''
         else if length t > 30 then take 27 t @ ''...'' else t)"
  unfolding generate_chat_title_def Let_def title_words_strip
  by auto

section \<open>The frames of a run\<close>

text \<open>
  The payload of each frame the report yields, and the kind the loop of
  \<open>generate_research_stream\<close> gives it.
\<close>

lemma py_strip_framed:
  assumes "\<not> py_isspace a" "\<not> py_isspace b"
  shows "py_strip (a # s @ [b, NL, NL]) = a # s @ [b]"
proof -
  have nl: "py_isspace NL" by (simp add: py_isspace_def NL_def)
  have 1: "dropWhile py_isspace (a # s @ [b, NL, NL]) = a # s @ [b, NL, NL]"
    using assms(1) by simp
  have 2: "rev (a # s @ [b, NL, NL]) = NL # NL # b # rev s @ [a]" by simp
  have 3: "dropWhile py_isspace (NL # NL # b # rev s @ [a]) = b # rev s @ [a]"
    using assms(2) nl by simp
  show ?thesis unfolding py_strip_def 1 2 3 by simp
qed

lemma DQ_not_space: "\<not> py_isspace DQ"
  by (simp add: py_isspace_def DQ_def)

lemma frame_data_quoted: "frame_data (quoted_frame s) = DQ # s @ [DQ]"
  using py_strip_framed [OF DQ_not_space DQ_not_space, of s]
  by (simp add: frame_data_def quoted_frame_def)

lemma frame_data_done: "frame_data done_frame = ''[DONE]''"
  by (simp add: frame_data_def done_frame_def py_strip_def py_isspace_def NL_def)

lemma starts_quoted: "startswith (quoted_frame s) ''data: ''"
  by (simp add: startswith_def quoted_frame_def)

lemma starts_done: "startswith done_frame ''data: ''"
  by (simp add: startswith_def done_frame_def)

lemma starts_verdict: "startswith (verdict_frame E v) ''data: ''"
  by (simp add: startswith_def verdict_frame_def)

lemma frame_data_verdict:
  assumes "model_dump_json E v = CHR ''{'' # body @ ''}''"
  shows "frame_data (verdict_frame E v) = model_dump_json E v"
proof -
  have a: "\<not> py_isspace (CHR ''{'')" and b: "\<not> py_isspace (CHR ''}'')"
    by (simp_all add: py_isspace_def)
  show ?thesis
    using py_strip_framed [OF a b, of body] assms
    by (simp add: frame_data_def verdict_frame_def)
qed

lemma quoted_is_text:
  assumes "json_roundtrips E"
  shows "is_text_frame E (quoted_frame s)"
proof -
  from assms have "(\<exists>t. json_loads E (DQ # s @ [DQ]) = Inr (JStr t)) \<or>
      (\<exists>m. json_loads E (DQ # s @ [DQ]) = Inl (JSONDecodeError m))"
    unfolding json_roundtrips_def by blast
  then have "\<not> is_verdict_frame E (quoted_frame s)"
    by (auto simp: is_verdict_frame_def frame_data_quoted is_verdict_json_def)
  moreover have "\<not> is_done_frame (quoted_frame s)"
    by (simp add: is_done_frame_def frame_data_quoted DQ_def)
  ultimately show ?thesis
    by (simp add: is_text_frame_def starts_quoted)
qed

lemma verdict_is_verdict:
  assumes "json_roundtrips E"
  shows "is_verdict_frame E (verdict_frame E v)"
proof -
  from assms obtain body d where
    b: "model_dump_json E v = CHR ''{'' # body @ ''}''" and
    l: "json_loads E (model_dump_json E v) = Inr (JObj d)" and
    k: "map_of d ''score'' \<noteq> None" "map_of d ''label'' \<noteq> None"
    unfolding json_roundtrips_def by blast
  have "frame_data (verdict_frame E v) \<noteq> ''[DONE]''"
    unfolding frame_data_verdict [OF b] b by simp
  then show ?thesis
    using l k by (simp add: is_verdict_frame_def starts_verdict frame_data_verdict [OF b] is_verdict_json_def)
qed

lemma done_is_done: "is_done_frame done_frame"
  by (simp add: is_done_frame_def starts_done frame_data_done)



text \<open>One step of the loop, by kind of frame.\<close>

lemma process_chunk_kinds:
  assumes "frame_data f \<noteq> ''[DONE]'' \<longrightarrow> (\<forall>m. json_loads E (frame_data f) \<noteq> Inl (OtherException m))"
  shows "\<exists>S'. process_chunk E S f = Inr S' \<and>
           accumulated_content S' =
             accumulated_content S @
               filter (\<lambda>t. t \<noteq> [] \<and> t \<noteq> ''[DONE]'') (decoded_payloads E [f])"
proof (cases "startswith f ''data: ''")
  case False
  then show ?thesis
    by (simp add: process_chunk_def decoded_payloads_def is_text_frame_def)
next
  case st: True
  show ?thesis
  proof (cases "frame_data f = ''[DONE]''")
    case True
    then show ?thesis using st
      by (simp add: process_chunk_def decoded_payloads_def is_text_frame_def
          is_done_frame_def frame_data_def)
  next
    case nd: False
    with assms have no: "\<forall>m. json_loads E (frame_data f) \<noteq> Inl (OtherException m)" by simp
    show ?thesis
    proof (cases "json_loads E (frame_data f)")
      case (Inl e)
      with no obtain m where "e = JSONDecodeError m \<or> e = ValueError m"
        by (cases e) auto
      with Inl st nd show ?thesis
        by (auto simp: process_chunk_def decoded_payloads_def is_text_frame_def
            is_done_frame_def is_verdict_frame_def frame_data_def accumulate_def Let_def)
    next
      case (Inr parsed)
      with st nd show ?thesis
        by (auto simp: process_chunk_def decoded_payloads_def is_text_frame_def
            is_done_frame_def is_verdict_frame_def frame_data_def accumulate_def Let_def)
    qed
  qed
qed

lemma decoded_payloads_Cons:
  "decoded_payloads E (f # fs) = decoded_payloads E [f] @ decoded_payloads E fs"
  by (simp add: decoded_payloads_def)

lemma consume_all:
  assumes "\<forall>f\<in>set fs. frame_data f \<noteq> ''[DONE]'' \<longrightarrow>
             (\<forall>m. json_loads E (frame_data f) \<noteq> Inl (OtherException m))"
  shows "fst (consume E S fs) = fs \<and>
         (\<exists>S'. snd (consume E S fs) = Inr S' \<and>
            accumulated_content S' =
              accumulated_content S @
                filter (\<lambda>t. t \<noteq> [] \<and> t \<noteq> ''[DONE]'') (decoded_payloads E fs))"
  using assms
proof (induction fs arbitrary: S)
  case Nil
  then show ?case by (simp add: decoded_payloads_def)
next
  case (Cons f fs)
  from Cons.prems have
    hf: "frame_data f \<noteq> ''[DONE]'' \<longrightarrow> (\<forall>m. json_loads E (frame_data f) \<noteq> Inl (OtherException m))"
    and hfs: "\<forall>f\<in>set fs. frame_data f \<noteq> ''[DONE]'' \<longrightarrow>
             (\<forall>m. json_loads E (frame_data f) \<noteq> Inl (OtherException m))"
    by simp_all
  from process_chunk_kinds [OF hf, of S] obtain S1 where
    p: "process_chunk E S f = Inr S1" and
    a: "accumulated_content S1 = accumulated_content S @
          filter (\<lambda>t. t \<noteq> [] \<and> t \<noteq> ''[DONE]'') (decoded_payloads E [f])"
    by blast
  from Cons.IH [OF hfs, of S1] obtain S2 where
    f2: "fst (consume E S1 fs) = fs" and
    s2: "snd (consume E S1 fs) = Inr S2" and
    a2: "accumulated_content S2 = accumulated_content S1 @
          filter (\<lambda>t. t \<noteq> [] \<and> t \<noteq> ''[DONE]'') (decoded_payloads E fs)"
    by blast
  show ?case
    using p f2 s2 a a2 by (simp add: decoded_payloads_Cons [of E f fs])
qed

section \<open>The frames of a chunk of the stream\<close>

lemma parts_frames_quoted: "f \<in> set (parts_frames ps) \<Longrightarrow> \<exists>s. f = quoted_frame s"
  by (auto simp: parts_frames_def text_frame_def split: option.splits if_splits)

lemma chunk_frames_quoted: "f \<in> set (chunk_frames c) \<Longrightarrow> \<exists>s. f = quoted_frame s"
  by (auto simp: chunk_frames_def text_frame_def dest: parts_frames_quoted
      split: option.splits if_splits)

lemma stream_frames_quoted:
  "f \<in> set (fst (stream_frames items)) \<Longrightarrow> \<exists>s. f = quoted_frame s"
  by (induction items rule: stream_frames.induct) (auto dest: chunk_frames_quoted)

lemma stream_report_quoted: "f \<in> set (stream_report m p) \<Longrightarrow> \<exists>s. f = quoted_frame s"
proof -
  assume f: "f \<in> set (stream_report m p)"
  show ?thesis
  proof (cases "generate_content_stream m p")
    case (Inl e)
    with f show ?thesis by (auto simp: stream_report_def gemini_error_frame_def)
  next
    case (Inr r)
    show ?thesis
    proof (cases r)
      case NotIterable
      with f Inr show ?thesis by (auto simp: stream_report_def gemini_error_frame_def)
    next
      case (Stream items)
      obtain fs r' where sf: "stream_frames items = (fs, r')" by (cases "stream_frames items")
      then have fs: "fs = fst (stream_frames items)" by simp
      have "f \<in> set fs \<or> (\<exists>s. f = quoted_frame s)"
      proof (cases r')
        case None
        with f Inr Stream sf show ?thesis
          by (cases "length items = 0") (auto simp: stream_report_def)
      next
        case (Some e)
        with f Inr Stream sf show ?thesis
          by (auto simp: stream_report_def gemini_error_frame_def)
      qed
      with fs show ?thesis using stream_frames_quoted by blast
    qed
  qed
qed

section \<open>Loops that can raise\<close>


lemma for_each_all:
  "\<forall>x\<in>set xs. \<exists>y. f x = Inr y \<Longrightarrow> \<exists>ys. for_each f xs = Inr ys"
  by (induction xs) auto

lemma for_each_project:
  assumes "\<And>x. x \<in> set xs \<Longrightarrow> map_sum id g (f x) = f' (h x)"
  shows "map_sum id (map g) (for_each f xs) = for_each f' (map h xs)"
  using assms
proof (induction xs)
  case Nil
  then show ?case by simp
next
  case (Cons x xs)
  have x: "map_sum id g (f x) = f' (h x)" by (rule Cons.prems) simp
  have r: "map_sum id (map g) (for_each f xs) = for_each f' (map h xs)"
  proof (rule Cons.IH)
    fix y assume "y \<in> set xs"
    then show "map_sum id g (f y) = f' (h y)" by (intro Cons.prems) simp
  qed
  show ?case
  proof (cases "f x")
    case (Inl e)
    with x show ?thesis by simp (metis map_sum.simps(1) id_apply old.sum.simps(5))
  next
    case (Inr y)
    with x have fx: "f' (h x) = Inr (g y)" by simp
    show ?thesis
    proof (cases "for_each f xs")
      case (Inl e)
      with r have "for_each f' (map h xs) = Inl e" by simp
      with Inr Inl fx show ?thesis by simp
    next
      case ys: (Inr ys)
      with r have "for_each f' (map h xs) = Inr (map g ys)" by simp
      with Inr ys fx show ?thesis by simp
    qed
  qed
qed

section \<open>The context of the report\<close>

lemma prepare_one_source:
  "map_sum id fst (prepare_one E ir) = make_source E (snd ir)"
  by (cases ir) (simp add: prepare_one_def make_source_def Let_def split: sum.splits)

lemma prepare_context_sources:
  assumes "prepare_context E rs = Inr prepared"
  shows "result_sources E rs = Inr (map fst prepared)"
proof -
  have "map_sum id (map fst) (for_each (prepare_one E) (enumerate 0 (take 8 rs))) =
        for_each (make_source E) (map snd (enumerate 0 (take 8 rs)))"
    by (rule for_each_project) (rule prepare_one_source)
  with assms show ?thesis
    by (simp add: prepare_context_def result_sources_def)
qed

lemma prepare_context_readable:
  assumes "counts_readable rs"
  shows "\<exists>prepared. prepare_context E rs = Inr prepared"
proof -
  have "\<forall>ir\<in>set (enumerate 0 (take 8 rs)). \<exists>p. prepare_one E ir = Inr p"
  proof
    fix ir assume "ir \<in> set (enumerate 0 (take 8 rs))"
    then have "snd ir \<in> snd ` set (enumerate 0 (take 8 rs))" by (rule imageI)
    then have "snd ir \<in> set (take 8 rs)"
      by (simp only: set_map [symmetric] map_snd_enumerate)
    with assms have "case extract_upvotes_from_content (dict_get_str (hit_content (snd ir)) []) of
        Inl e \<Rightarrow> False | Inr n \<Rightarrow> True"
      unfolding counts_readable_def list_all_iff by blast
    then obtain n where
      "extract_upvotes_from_content (dict_get_str (hit_content (snd ir)) []) = Inr n"
      by (cases "extract_upvotes_from_content (dict_get_str (hit_content (snd ir)) [])") simp_all
    then show "\<exists>p. prepare_one E ir = Inr p"
      by (cases ir) (simp add: prepare_one_def Let_def)
  qed
  then show ?thesis
    unfolding prepare_context_def by (rule for_each_all)
qed


section \<open>The frames of the report\<close>

lemma report_fail:
  "prepare_context E rs = Inl e \<Longrightarrow> generate_sentiment_report E q rs flt = Inl e"
  by (simp add: generate_sentiment_report_def)

lemma report_structure:
  assumes "prepare_context E rs = Inr prepared"
  shows "\<exists>body. generate_sentiment_report E q rs flt =
      Inr (verdict_frame E (fst (analyze_sentiment E (sentiment_texts rs))) # body @ [done_frame]) \<and>
      (\<forall>f\<in>set body. \<exists>s. f = quoted_frame s)"
proof (cases "gemini_model E")
  case None
  let ?b = "[quoted_frame (''Error generating report: '' @
                 ''Gemini model not initialized. Check GEMINI_API_KEY.'')]"
  from None assms have "generate_sentiment_report E q rs flt =
      Inr (verdict_frame E (fst (analyze_sentiment E (sentiment_texts rs))) # ?b @ [done_frame])"
    by (simp add: generate_sentiment_report_def Let_def)
  moreover have "\<forall>f\<in>set ?b. \<exists>s. f = quoted_frame s" by auto
  ultimately show ?thesis by blast
next
  case (Some m)
  with assms have "generate_sentiment_report E q rs flt =
      Inr (verdict_frame E (fst (analyze_sentiment E (sentiment_texts rs))) #
      stream_report m (system_prompt E q (py_join [NL, NL] (map snd prepared))
         (fst (analyze_sentiment E (sentiment_texts rs)))) @ [done_frame])"
    by (simp add: generate_sentiment_report_def Let_def)
  then show ?thesis using stream_report_quoted by blast
qed

lemma report_frames:
  assumes "generate_sentiment_report E q rs flt = Inr fs"
  shows "\<exists>prepared body. prepare_context E rs = Inr prepared \<and>
      fs = verdict_frame E (fst (analyze_sentiment E (sentiment_texts rs))) # body @ [done_frame] \<and>
      (\<forall>f\<in>set body. \<exists>s. f = quoted_frame s)"
proof (cases "prepare_context E rs")
  case (Inl e)
  with assms report_fail [OF Inl] show ?thesis by simp
next
  case (Inr prepared)
  from report_structure [OF Inr, of q flt] assms Inr show ?thesis by auto
qed

lemma report_frames_parse:
  assumes "json_roundtrips E"
    and "fs = verdict_frame E v # body @ [done_frame]"
    and "\<forall>f\<in>set body. \<exists>s. f = quoted_frame s"
  shows "\<forall>f\<in>set fs. frame_data f \<noteq> ''[DONE]'' \<longrightarrow>
             (\<forall>m. json_loads E (frame_data f) \<noteq> Inl (OtherException m))"
proof
  fix f assume "f \<in> set fs"
  with assms(2) consider "f = verdict_frame E v" | "f \<in> set body" | "f = done_frame" by auto
  then show "frame_data f \<noteq> ''[DONE]'' \<longrightarrow>
             (\<forall>m. json_loads E (frame_data f) \<noteq> Inl (OtherException m))"
  proof cases
    case 1
    from assms(1) obtain b d where
      b: "model_dump_json E v = CHR ''{'' # b @ ''}''" and
      l: "json_loads E (model_dump_json E v) = Inr (JObj d)"
      unfolding json_roundtrips_def by blast
    show ?thesis unfolding 1 frame_data_verdict [OF b] l by simp
  next
    case 2
    with assms(3) obtain s where s: "f = quoted_frame s" by blast
    from assms(1) have "(\<exists>t. json_loads E (DQ # s @ [DQ]) = Inr (JStr t)) \<or>
      (\<exists>m. json_loads E (DQ # s @ [DQ]) = Inl (JSONDecodeError m))"
      unfolding json_roundtrips_def by blast
    then show ?thesis unfolding s frame_data_quoted by auto
  next
    case 3
    then show ?thesis by (simp add: frame_data_done)
  qed
qed

text \<open>The loop of \<open>generate_research_stream\<close>, when it ends without an exception.\<close>

lemma process_chunk_ok:
  assumes "process_chunk E S f = Inr S'"
  shows "accumulated_content S' =
           accumulated_content S @
             filter (\<lambda>t. t \<noteq> [] \<and> t \<noteq> ''[DONE]'') (decoded_payloads E [f])"
proof (cases "startswith f ''data: ''")
  case False
  with assms show ?thesis
    by (simp add: process_chunk_def decoded_payloads_def is_text_frame_def)
next
  case st: True
  show ?thesis
  proof (cases "frame_data f = ''[DONE]''")
    case True
    with assms st show ?thesis
      by (simp add: process_chunk_def decoded_payloads_def is_text_frame_def
          is_done_frame_def frame_data_def)
  next
    case nd: False
    show ?thesis
    proof (cases "json_loads E (frame_data f)")
      case (Inl e)
      with assms st nd show ?thesis
        by (cases e) (auto simp: process_chunk_def decoded_payloads_def is_text_frame_def
            is_done_frame_def is_verdict_frame_def frame_data_def accumulate_def Let_def)
    next
      case (Inr parsed)
      with assms st nd show ?thesis
        by (auto simp: process_chunk_def decoded_payloads_def is_text_frame_def
            is_done_frame_def is_verdict_frame_def frame_data_def accumulate_def Let_def
            split: if_splits)
    qed
  qed
qed

lemma consume_ok:
  "snd (consume E S fs) = Inr S' \<Longrightarrow>
     fst (consume E S fs) = fs \<and>
     accumulated_content S' =
       accumulated_content S @
         filter (\<lambda>t. t \<noteq> [] \<and> t \<noteq> ''[DONE]'') (decoded_payloads E fs)"
proof (induction fs arbitrary: S)
  case Nil
  then show ?case by (simp add: decoded_payloads_def)
next
  case (Cons f fs)
  from Cons.prems obtain S1 where p: "process_chunk E S f = Inr S1"
    by (cases "process_chunk E S f") simp_all
  with Cons.prems have s: "snd (consume E S1 fs) = Inr S'" by simp
  from Cons.IH [OF s] process_chunk_ok [OF p] p show ?case
    by (simp add: decoded_payloads_Cons [of E f fs])
qed


section \<open>The paths of a run\<close>

lemma research_stream_empty:
  "research_stream E cs cid q flt [] =
     ([quoted_frame error_msg, done_frame], fst (add_message E cs cid ''assistant'' error_msg))"
  by (simp add: research_stream_def research_run_def)


lemma sentiment_texts_take8: "sentiment_texts (take 8 rs) = sentiment_texts rs"
  by (simp add: sentiment_texts_def min_def)


lemma prepare_context_take8: "prepare_context E (take 8 rs) = prepare_context E rs"
  by (simp add: prepare_context_def)

lemma result_sources_take8: "result_sources E (take 8 rs) = result_sources E rs"
  by (simp add: result_sources_def)

lemma report_take8:
  "generate_sentiment_report E q (take 8 rs) flt = generate_sentiment_report E q rs flt"
  unfolding generate_sentiment_report_def prepare_context_take8 sentiment_texts_take8 ..

lemma research_run_take8:
  "research_run E cs cid q flt (take 8 rs) = research_run E cs cid q flt rs"
proof -
  have e: "(take 8 rs = []) = (rs = [])" by (cases rs) simp_all
  show ?thesis
    unfolding research_run_def report_take8 result_sources_take8 e ..
qed

lemma research_stream_take8:
  "research_stream E cs cid q flt (take 8 rs) = research_stream E cs cid q flt rs"
  by (simp add: research_stream_def research_run_take8)


text \<open>A run that no exception ends.\<close>

lemma completed_run:
  assumes "rs \<noteq> []" and "research_fault E cs cid q flt rs = None"
  shows "\<exists>fs S srcs. generate_sentiment_report E q rs flt = Inr fs \<and>
     snd (consume E \<lparr>accumulated_content = [], sentiment_data = None\<rparr> fs) = Inr S \<and>
     result_sources E rs = Inr srcs \<and>
     research_stream E cs cid q flt rs =
       (fs, fst (add_sources
             (if py_strip (concat (accumulated_content S)) \<noteq> []
              then fst (add_message E cs cid ''assistant'' (py_strip (concat (accumulated_content S))))
              else fst (add_message E cs cid ''assistant'' ''Report generated successfully''))
             cid srcs))"
proof (cases "generate_sentiment_report E q rs flt")
  case (Inl e)
  with assms show ?thesis by (simp add: research_fault_def research_run_def)
next
  case (Inr fs)
  let ?S0 = "\<lparr>accumulated_content = [], sentiment_data = None\<rparr>"
  obtain out r where c: "consume E ?S0 fs = (out, r)" by (cases "consume E ?S0 fs")
  show ?thesis
  proof (cases r)
    case (Inl e)
    with assms Inr c show ?thesis by (simp add: research_fault_def research_run_def)
  next
    case S: (Inr S)
    with c have "snd (consume E ?S0 fs) = Inr S" by simp
    from consume_ok [OF this] c have out: "out = fs" by simp
    show ?thesis
    proof (cases "result_sources E rs")
      case (Inl e)
      with assms Inr c S show ?thesis
        by (simp add: research_fault_def research_run_def Let_def)
    next
      case srcs: (Inr srcs)
      with assms(1) Inr c S out show ?thesis
        by (simp add: research_stream_def research_run_def Let_def)
    qed
  qed
qed

lemma concat_filter_nonempty:
  "concat (filter (\<lambda>t. t \<noteq> [] \<and> t \<noteq> d) xs) = concat (filter (\<lambda>t. t \<noteq> d) xs)"
  by (induction xs) auto

lemma research_stream_store:
  assumes "rs \<noteq> []" and "research_fault E cs cid q flt rs = None" and "cs cid = Some c"
  shows "\<exists>fs prepared. generate_sentiment_report E q rs flt = Inr fs \<and>
     prepare_context E rs = Inr prepared \<and>
     research_stream E cs cid q flt rs =
       (fs, cs(cid \<mapsto> c\<lparr>chat_messages := chat_messages c @
          [Message E ''assistant''
            (let t = py_strip (concat (filter (\<lambda>p. p \<noteq> ''[DONE]'') (decoded_payloads E fs)))
             in if t \<noteq> [] then t else ''Report generated successfully'')],
          chat_sources := chat_sources c @ map fst prepared\<rparr>))"
proof -
  let ?S0 = "\<lparr>accumulated_content = [], sentiment_data = None\<rparr>"
  from completed_run [OF assms(1,2)] obtain fs S srcs where
    r: "generate_sentiment_report E q rs flt = Inr fs" and
    s: "snd (consume E ?S0 fs) = Inr S" and
    rs: "result_sources E rs = Inr srcs" and
    st: "research_stream E cs cid q flt rs =
       (fs, fst (add_sources
             (if py_strip (concat (accumulated_content S)) \<noteq> []
              then fst (add_message E cs cid ''assistant'' (py_strip (concat (accumulated_content S))))
              else fst (add_message E cs cid ''assistant'' ''Report generated successfully''))
             cid srcs))"
    by blast
  from report_frames [OF r] obtain prepared where p: "prepare_context E rs = Inr prepared"
    by blast
  from prepare_context_sources [OF p] rs have srcs: "srcs = map fst prepared" by simp
  let ?t = "py_strip (concat (filter (\<lambda>p. p \<noteq> ''[DONE]'') (decoded_payloads E fs)))"
  from consume_ok [OF s] have "accumulated_content S =
      filter (\<lambda>t. t \<noteq> [] \<and> t \<noteq> ''[DONE]'') (decoded_payloads E fs)" by simp
  then have t: "py_strip (concat (accumulated_content S)) = ?t"
    by (simp only: concat_filter_nonempty)
  have am: "\<And>content. fst (add_message E cs cid ''assistant'' content) =
      cs(cid \<mapsto> c\<lparr>chat_messages := chat_messages c @ [Message E ''assistant'' content]\<rparr>)"
    using assms(3) by (simp add: add_message_def get_chat_def Let_def)
  have ad: "\<And>c' ss. fst (add_sources (cs(cid \<mapsto> c')) cid ss) =
      cs(cid \<mapsto> c'\<lparr>chat_sources := chat_sources c' @ ss\<rparr>)"
    by (simp add: add_sources_def get_chat_def)
  have "research_stream E cs cid q flt rs =
       (fs, cs(cid \<mapsto> c\<lparr>chat_messages := chat_messages c @
          [Message E ''assistant'' (if ?t \<noteq> [] then ?t else ''Report generated successfully'')],
          chat_sources := chat_sources c @ map fst prepared\<rparr>))"
  proof (cases "?t = []")
    case True
    with st t srcs show ?thesis by (simp add: am ad)
  next
    case False
    with st t srcs show ?thesis by (simp add: am ad)
  qed
  with r p show ?thesis by (simp add: Let_def)
qed

text \<open>With the libraries as they are, a run whose context can be prepared completes.\<close>

lemma run_completes:
  assumes "json_roundtrips E" and "rs \<noteq> []" and "prepare_context E rs = Inr prepared"
  shows "research_fault E cs cid q flt rs = None"
proof -
  let ?S0 = "\<lparr>accumulated_content = [], sentiment_data = None\<rparr>"
  from report_structure [OF assms(3), of q flt] obtain body where
    r: "generate_sentiment_report E q rs flt =
          Inr (verdict_frame E (fst (analyze_sentiment E (sentiment_texts rs))) # body @ [done_frame])"
    and bd: "\<forall>f\<in>set body. \<exists>s. f = quoted_frame s" by blast
  let ?fs = "verdict_frame E (fst (analyze_sentiment E (sentiment_texts rs))) # body @ [done_frame]"
  from consume_all [OF report_frames_parse [OF assms(1) refl bd], of ?S0]
  obtain S where s: "snd (consume E ?S0 ?fs) = Inr S" by blast
  obtain out where c: "consume E ?S0 ?fs = (out, Inr S)"
    using s by (cases "consume E ?S0 ?fs") auto
  from prepare_context_sources [OF assms(3)]
  have rs: "result_sources E rs = Inr (map fst prepared)" .
  from assms(2) r c rs show ?thesis
    by (simp add: research_fault_def research_run_def Let_def)
qed



section \<open>Evaluation of the concrete runs\<close>

lemma demo_json_roundtrips: "json_roundtrips demo_env"
proof -
  have b: "demo_verdict_json = CHR ''{'' #
     ([DQ] @ ''score'' @ [DQ] @ '':50.0,'' @ [DQ] @ ''label'' @ [DQ] @ '':'' @ [DQ]
       @ ''Neutral'' @ [DQ] @ '','' @ [DQ] @ ''confidence'' @ [DQ] @ '':0.3'') @ ''}''"
    by (simp add: demo_verdict_json_def)
  have l: "demo_json_loads demo_verdict_json =
      Inr (JObj [(''score'', JNum 50), (''label'', JStr ''Neutral''), (''confidence'', JNum 0.3)])"
    by (simp add: demo_json_loads_def)
  have q: "\<And>s. demo_json_loads (DQ # s) = Inl (JSONDecodeError ''Expecting value'')"
    by (simp add: demo_json_loads_def demo_verdict_json_def DQ_def)
  show ?thesis
    unfolding json_roundtrips_def
  proof (intro conjI allI)
    fix v
    show "\<exists>body d. model_dump_json demo_env v = CHR ''{'' # body @ ''}'' \<and>
              json_loads demo_env (model_dump_json demo_env v) = Inr (JObj d) \<and>
              map_of d ''score'' \<noteq> None \<and> map_of d ''label'' \<noteq> None"
      using b l by (simp add: demo_env_def) (metis b)
  next
    fix s
    show "(\<exists>t. json_loads demo_env (DQ # s) = Inr (JStr t)) \<or>
           (\<exists>m. json_loads demo_env (DQ # s) = Inl (JSONDecodeError m))"
      using q by (simp add: demo_env_def)
  qed
qed

lemma demo_search: "search_reddit demo_env q flt 10 = demo_hits"
  by (simp add: search_reddit_def search_reddit_try_def demo_env_def)

lemma demo_hits_nonempty: "demo_hits \<noteq> []"
  by (simp add: demo_hits_def)

lemma demo_sentiment:
  "analyze_sentiment demo_env (sentiment_texts demo_hits) =
     (default_verdict 0.3, [sentiment_prompt ''Great camera. 120 Upvotes Battery is bad''])"
proof -
  have t: "sentiment_texts demo_hits = [''Great camera. 120 Upvotes'', ''Battery is bad'']"
    by (simp add: sentiment_texts_def demo_hits_def dict_get_str_def)
  have j: "py_join '' '' (take 5 [''Great camera. 120 Upvotes'', ''Battery is bad'']) =
      ''Great camera. 120 Upvotes Battery is bad''" by simp
  have s: "py_strip ''Great camera. 120 Upvotes Battery is bad'' \<noteq> []"
    by (simp add: py_strip_def py_isspace_def)
  have n: "py_strip ''not json'' = ''not json''"
    by (simp add: py_strip_def py_isspace_def)
  have f: "strip_fences ''not json'' = ''not json''"
    by (simp add: strip_fences_def contains_sub_def startswith_def)
  have p: "parse_sentiment demo_env ''not json'' = Inr (default_verdict 0.3)"
    unfolding parse_sentiment_def f
    by (simp add: demo_env_def demo_json_loads_def demo_verdict_json_def)
  have g: "gemini_model demo_env = Some demo_gemini" by (simp add: demo_env_def)
  have c: "\<And>x. generate_content demo_gemini x = Inr (RespText ''not json'')"
    by (simp add: demo_gemini_def)
  show ?thesis
    unfolding analyze_sentiment_def analyze_sentiment_try_def t j Let_def g
    using s by (simp add: c n p)
qed

lemma demo_upvotes:
  "extract_upvotes_from_content ''Great camera. 120 Upvotes'' = Inr 120"
  "extract_upvotes_from_content ''Battery is bad'' = Inr 0"
  by (simp_all add: extract_upvotes_from_content_def py_lower_def py_lower_char_def
      upper_chars_def lower_chars_def py_isdigit_def py_isspace_def upvote_word_def
      startswith_def py_int_def int_of_digits_def digit_val_def)

lemma demo_counts_readable: "counts_readable demo_hits"
  by (simp add: counts_readable_def demo_hits_def dict_get_str_def demo_upvotes)

lemma demo_prepared:
  "map_sum id (map (\<lambda>p. (src_id (fst p), src_title (fst p)))) (prepare_context demo_env demo_hits) =
     Inr [(''a2b7'', ''iPhone 16 review''), (''a2b7'', ''No Title'')]"
  by (simp add: prepare_context_def prepare_one_def demo_hits_def dict_get_str_def
      demo_upvotes Source_def demo_env_def Let_def)

lemma demo_report:
  "generate_sentiment_report demo_env q demo_hits flt =
     Inr [verdict_frame demo_env (default_verdict 0.3), text_frame ''Hello '', done_frame]"
proof -
  from prepare_context_readable [OF demo_counts_readable, of demo_env]
  obtain prepared where p: "prepare_context demo_env demo_hits = Inr prepared" by blast
  have g: "gemini_model demo_env = Some demo_gemini" by (simp add: demo_env_def)
  have r: "\<And>p. stream_report demo_gemini p = [text_frame ''Hello '']"
    by (simp add: stream_report_def demo_gemini_def chunk_frames_def)
  show ?thesis
    unfolding generate_sentiment_report_def p Let_def demo_sentiment g
    by (simp add: r)
qed

lemma demo_no_fault: "research_fault demo_env cs cid q flt demo_hits = None"
proof -
  from prepare_context_readable [OF demo_counts_readable, of demo_env]
  obtain prepared where p: "prepare_context demo_env demo_hits = Inr prepared" by blast
  from run_completes [OF demo_json_roundtrips demo_hits_nonempty p] show ?thesis .
qed

lemma demo_completes: "completes_successfully demo_env cs cid q flt"
  by (simp add: completes_successfully_def demo_search demo_no_fault)

lemma demo_run_frames:
  "fst (generate_research_stream demo_env cs cid q flt) =
     [verdict_frame demo_env (default_verdict 0.3), text_frame ''Hello '', done_frame]"
proof -
  from completed_run [where cs = cs and cid = cid and q = q and flt = flt,
      OF demo_hits_nonempty demo_no_fault]
  show ?thesis
    by (auto simp: generate_research_stream_def demo_search demo_report)
qed

lemma demo_decoded:
  "decoded_payloads demo_env
     [verdict_frame demo_env (default_verdict 0.3), text_frame ''Hello '', done_frame] = [''Hello '']"
proof -
  have e: "escape_text ''Hello '' = ''Hello ''"
    by (simp add: escape_text_def py_replace_def NL_def DQ_def)
  have t: "is_text_frame demo_env (text_frame ''Hello '')"
    unfolding text_frame_def by (rule quoted_is_text [OF demo_json_roundtrips])
  have v: "\<not> is_text_frame demo_env (verdict_frame demo_env (default_verdict 0.3))"
    using verdict_is_verdict [OF demo_json_roundtrips] by (simp add: is_text_frame_def)
  have d: "\<not> is_text_frame demo_env done_frame"
    using done_is_done by (simp add: is_text_frame_def)
  have p: "decode_text (frame_data (text_frame ''Hello '')) = ''Hello ''"
    unfolding text_frame_def frame_data_quoted e
    by (simp add: decode_text_def startswith_def endswith_def py_replace_def DQ_def BSL_def)
  show ?thesis
    by (simp add: decoded_payloads_def t v d p)
qed

lemma demo_chat_present: "demo_chats ''c1'' = Some demo_chat"
  by (simp add: demo_chats_def)

lemma demo_empty_search: "search_reddit demo_env_empty q flt 10 = []"
  by (simp add: search_reddit_def search_reddit_try_def demo_env_empty_def demo_env_def)







section \<open>The sentiment classifier\<close>

lemma py_strip_blank:
  assumes "\<forall>c\<in>set s. py_isspace c"
  shows "py_strip s = []"
proof -
  from assms have d: "dropWhile py_isspace s = []" by (induction s) auto
  show ?thesis unfolding py_strip_def d by simp
qed

lemma py_join_blank:
  "\<forall>t\<in>set ts. \<forall>c\<in>set t. py_isspace c \<Longrightarrow> \<forall>c\<in>set (py_join '' '' ts). py_isspace c"
proof (induction "'' ''" ts rule: py_join.induct)
  case 1
  then show ?case by simp
next
  case (2 x)
  then show ?case by simp
next
  case (3 x y ys)
  have "py_isspace (CHR '' '')" by (simp add: py_isspace_def)
  with 3 show ?case by auto
qed

lemma great_phone_text:
  "py_join '' '' (take 5 [''great phone'']) = ''great phone''"
  "py_strip ''great phone'' \<noteq> []"
  by (simp_all add: py_strip_def py_isspace_def)

lemma not_json_text:
  "strip_fences (py_strip ''not json'') = ''not json''"
  by (simp add: py_strip_def py_isspace_def strip_fences_def contains_sub_def startswith_def)

lemma array_text:
  "strip_fences (py_strip ''[]'') = ''[]''"
  by (simp add: py_strip_def py_isspace_def strip_fences_def contains_sub_def startswith_def)

section \<open>The first eight results\<close>






section \<open>Encoding and decoding a fragment\<close>

text \<open>
  On a fragment without a backslash the decoder undoes the encoder.
\<close>

lemma replace_one_char:
  "replace_aux 0 [c] new s = concat (map (\<lambda>x. if x = c then new else [x]) s)"
  by (induction s) simp_all

lemma escape_text_map:
  "escape_text t =
     concat (map (\<lambda>x. if x = DQ then [BSL, DQ] else if x = NL then [BSL, CHR ''n''] else [x]) t)"
proof -
  have 1: "py_replace [DQ] [BSL, DQ] t = concat (map (\<lambda>x. if x = DQ then [BSL, DQ] else [x]) t)"
    by (simp add: py_replace_def replace_one_char)
  have 2: "\<And>s. py_replace [NL] [BSL, CHR ''n''] s =
      concat (map (\<lambda>x. if x = NL then [BSL, CHR ''n''] else [x]) s)"
    by (simp add: py_replace_def replace_one_char)
  show ?thesis
    unfolding escape_text_def 1 2
    by (induction t) (simp_all add: DQ_def NL_def BSL_def)
qed

lemma unescape_newlines:
  "BSL \<notin> set t \<Longrightarrow>
     replace_aux 0 [BSL, CHR ''n''] [NL]
       (concat (map (\<lambda>x. if x = DQ then [BSL, DQ] else if x = NL then [BSL, CHR ''n''] else [x]) t)) =
     concat (map (\<lambda>x. if x = DQ then [BSL, DQ] else [x]) t)"
  by (induction t) (auto simp: DQ_def NL_def BSL_def)

lemma unescape_quotes:
  "BSL \<notin> set t \<Longrightarrow>
     replace_aux 0 [BSL, DQ] [DQ] (concat (map (\<lambda>x. if x = DQ then [BSL, DQ] else [x]) t)) = t"
  by (induction t) (auto simp: DQ_def BSL_def)

lemma roundtrip_without_backslash:
  assumes "BSL \<notin> set t"
  shows "decode_text (frame_data (text_frame t)) = t"
proof -
  have q: "startswith (DQ # escape_text t @ [DQ]) [DQ]" "endswith (DQ # escape_text t @ [DQ]) [DQ]"
    by (simp_all add: startswith_def endswith_def)
  have "decode_text (DQ # escape_text t @ [DQ]) =
      py_replace [BSL, DQ] [DQ] (py_replace [BSL, CHR ''n''] [NL] (escape_text t))"
    unfolding decode_text_def Let_def using q by (simp add: butlast_append)
  also have "\<dots> = t"
    unfolding escape_text_map
    by (simp add: py_replace_def unescape_newlines [OF assms] unescape_quotes [OF assms])
  finally show ?thesis
    by (simp add: text_frame_def frame_data_quoted)
qed





text \<open>
  C2 (amended): in every run that completes successfully with a non-empty search result
  on an existing conversation, exactly one assistant message is appended.  Its content
  is the concatenation, in emission order, of the decoded payloads of the TextFragment
  frames other than those that decode to \<open>[DONE]\<close>, with leading and trailing
  whitespace removed; when that is empty the content is
  \<open>Report generated successfully\<close>.
\<close>

theorem assistant_message_is_trimmed_transcript:
  assumes "completes_successfully E cs cid query flt"
    and "search_reddit E query flt 10 \<noteq> []" and "cs cid = Some c"
  shows "\<exists>c'. snd (generate_research_stream E cs cid query flt) cid = Some c' \<and>
     chat_messages c' = chat_messages c @
       [\<lparr>msg_id = message_id_default E, msg_role = ''assistant'',
         msg_content =
           (let t = py_strip (concat (filter (\<lambda>p. p \<noteq> ''[DONE]'')
                      (decoded_payloads E (fst (generate_research_stream E cs cid query flt)))))
            in if t \<noteq> [] then t else ''Report generated successfully'')\<rparr>]"
proof -
  let ?rs = "search_reddit E query flt 10"
  from assms(1) have nf: "research_fault E cs cid query flt ?rs = None"
    by (simp add: completes_successfully_def)
  from research_stream_store [OF assms(2) nf assms(3)] obtain fs prepared where
    p: "prepare_context E ?rs = Inr prepared" and
    st: "research_stream E cs cid query flt ?rs =
       (fs, cs(cid \<mapsto> c\<lparr>chat_messages := chat_messages c @
          [Message E ''assistant''
            (let t = py_strip (concat (filter (\<lambda>p. p \<noteq> ''[DONE]'') (decoded_payloads E fs)))
             in if t \<noteq> [] then t else ''Report generated successfully'')],
          chat_sources := chat_sources c @ map fst prepared\<rparr>))"
    by blast
  show ?thesis
    unfolding generate_research_stream_def st
    by (simp add: Message_def Let_def)
qed

theorem assistant_message_is_trimmed_transcript_witness:
  "completes_successfully demo_env demo_chats ''c1'' ''iPhone 16 sentiment'' None \<and>
   search_reddit demo_env ''iPhone 16 sentiment'' None 10 \<noteq> [] \<and>
   demo_chats ''c1'' = Some demo_chat \<and>
   (\<exists>c'. snd (generate_research_stream demo_env demo_chats ''c1'' ''iPhone 16 sentiment'' None) ''c1'' = Some c' \<and>
     chat_messages c' = chat_messages demo_chat @
       [\<lparr>msg_id = message_id_default demo_env, msg_role = ''assistant'',
         msg_content =
           (let t = py_strip (concat (filter (\<lambda>p. p \<noteq> ''[DONE]'')
                      (decoded_payloads demo_env
                        (fst (generate_research_stream demo_env demo_chats ''c1'' ''iPhone 16 sentiment'' None)))))
            in if t \<noteq> [] then t else ''Report generated successfully'')\<rparr>])"
proof -
  have h: "search_reddit demo_env ''iPhone 16 sentiment'' None 10 \<noteq> []"
    by (simp add: demo_search demo_hits_nonempty)
  from assistant_message_is_trimmed_transcript
         [where E = demo_env and cs = demo_chats and cid = "''c1''" and c = demo_chat,
          OF demo_completes h demo_chat_present]
  show ?thesis using demo_completes h demo_chat_present by blast
qed

text \<open>
  The claim as stated, without the trimming, fails: the model streams the one fragment
  \<open>Hello \<close> (with a trailing space); the run completes, the decoded payloads
  concatenate to that text, and the message persisted is \<open>Hello\<close>.
\<close>

theorem transcript_untrimmed_counterexample:
  "concat (decoded_payloads demo_env
      (fst (generate_research_stream demo_env demo_chats ''c1'' ''iPhone 16 sentiment'' None))) = ''Hello '' \<and>
   map msg_content (chat_messages (the
      (snd (generate_research_stream demo_env demo_chats ''c1'' ''iPhone 16 sentiment'' None) ''c1''))) =
     [''iPhone 16 sentiment'', ''Hello'']"
proof -
  have s: "py_strip ''Hello '' = ''Hello''"
    by (simp add: py_strip_def py_isspace_def)
  from research_stream_store [where E = demo_env and cs = demo_chats and cid = "''c1''"
        and c = demo_chat and q = "''iPhone 16 sentiment''" and flt = None,
        OF demo_hits_nonempty demo_no_fault demo_chat_present]
  have "map msg_content (chat_messages (the
      (snd (research_stream demo_env demo_chats ''c1'' ''iPhone 16 sentiment'' None demo_hits) ''c1''))) =
     [''iPhone 16 sentiment'', ''Hello'']"
    by (auto simp: demo_report demo_decoded s Message_def demo_chat_def)
  then have m: "map msg_content (chat_messages (the
      (snd (generate_research_stream demo_env demo_chats ''c1'' ''iPhone 16 sentiment'' None) ''c1''))) =
     [''iPhone 16 sentiment'', ''Hello'']"
    by (simp add: generate_research_stream_def demo_search)
  have d: "concat (decoded_payloads demo_env
      (fst (generate_research_stream demo_env demo_chats ''c1'' ''iPhone 16 sentiment'' None))) = ''Hello ''"
    unfolding demo_run_frames demo_decoded by simp
  from d m show ?thesis by (rule conjI)
qed


text \<open>
  C1 (amended): in every run in which the search returns an empty list, the stream is
  exactly the quoted frame \<open>No relevant discussions found on Reddit.\<close> followed by
  the Done frame; no sources are persisted; and when the conversation exists one
  assistant message with that text is appended to it (a missing conversation is left
  as it is).
\<close>

theorem empty_search_stream:
  assumes "search_reddit E query flt 10 = []"
  shows "fst (generate_research_stream E cs cid query flt) =
           [quoted_frame ''No relevant discussions found on Reddit.'', done_frame] \<and>
         snd (generate_research_stream E cs cid query flt) =
           (case cs cid of
              None \<Rightarrow> cs
            | Some c \<Rightarrow>
                cs(cid \<mapsto> c\<lparr>chat_messages := chat_messages c @
                  [\<lparr>msg_id = message_id_default E, msg_role = ''assistant'',
                    msg_content = ''No relevant discussions found on Reddit.''\<rparr>]\<rparr>))"
  using assms
  by (simp add: generate_research_stream_def research_stream_empty error_msg_def
      add_message_def get_chat_def Message_def Let_def split: option.split)

theorem empty_search_stream_witness:
  "search_reddit demo_env_empty ''iPhone 16 sentiment'' None 10 = [] \<and>
   fst (generate_research_stream demo_env_empty demo_chats ''c1'' ''iPhone 16 sentiment'' None) =
     [quoted_frame ''No relevant discussions found on Reddit.'', done_frame] \<and>
   snd (generate_research_stream demo_env_empty demo_chats ''c1'' ''iPhone 16 sentiment'' None) =
     demo_chats(''c1'' \<mapsto> demo_chat\<lparr>chat_messages := chat_messages demo_chat @
        [\<lparr>msg_id = message_id_default demo_env_empty, msg_role = ''assistant'',
          msg_content = ''No relevant discussions found on Reddit.''\<rparr>]\<rparr>)"
  using empty_search_stream [where cs = demo_chats and cid = "''c1''", OF demo_empty_search]
    demo_empty_search demo_chat_present
  by simp

text \<open>
  The claim as stated, that no assistant message is persisted, fails on a conversation
  that holds the user's message: after the run it holds an assistant message too.
\<close>

theorem empty_search_persists_counterexample:
  "search_reddit demo_env_empty ''iPhone 16 sentiment'' None 10 = [] \<and>
   chat_messages (the
     (snd (generate_research_stream demo_env_empty demo_chats ''c1'' ''iPhone 16 sentiment'' None) ''c1'')) =
   chat_messages demo_chat @
     [\<lparr>msg_id = ''6f1c'', msg_role = ''assistant'',
       msg_content = ''No relevant discussions found on Reddit.''\<rparr>]"
proof -
  have m: "message_id_default demo_env_empty = ''6f1c''"
    by (simp add: demo_env_empty_def demo_env_def)
  show ?thesis
    by (simp add: demo_empty_search generate_research_stream_def research_stream_empty
        add_message_def get_chat_def demo_chat_present Message_def Let_def error_msg_def m)
qed

text \<open>
  C8: when the search client is not configured, or raises on the query, the search
  returns the empty list, and the run is the same, frames and store, as the run with a
  client that returns an empty result list.
\<close>

theorem search_fault_gives_empty_run:
  assumes "tavily_client E = None \<or>
           (\<exists>client e. tavily_client E = Some client \<and> client (search_query query flt) 10 = Inl e)"
  shows "search_reddit E query flt 10 = [] \<and>
         generate_research_stream E cs cid query flt =
           generate_research_stream (E\<lparr>tavily_client := Some (\<lambda>q n. Inr (Some []))\<rparr>) cs cid query flt"
proof -
  from assms have e: "search_reddit E query flt 10 = []"
    by (auto simp: search_reddit_def search_reddit_try_def)
  have e': "search_reddit (E\<lparr>tavily_client := Some (\<lambda>q n. Inr (Some []))\<rparr>) query flt 10 = []"
    by (simp add: search_reddit_def search_reddit_try_def)
  have m: "\<And>role content.
      Message (E\<lparr>tavily_client := Some (\<lambda>q n. Inr (Some []))\<rparr>) role content = Message E role content"
    by (simp add: Message_def)
  have am: "\<And>role content.
      add_message (E\<lparr>tavily_client := Some (\<lambda>q n. Inr (Some []))\<rparr>) cs cid role content =
      add_message E cs cid role content"
    unfolding add_message_def m ..
  show ?thesis
    by (simp add: e e' generate_research_stream_def research_stream_empty am)
qed

theorem search_fault_gives_empty_run_witness:
  "(tavily_client demo_env_unconfigured = None \<and>
    search_reddit demo_env_unconfigured ''iPhone 16 sentiment'' None 10 = [] \<and>
    generate_research_stream demo_env_unconfigured demo_chats ''c1'' ''iPhone 16 sentiment'' None =
      generate_research_stream (demo_env_unconfigured\<lparr>tavily_client := Some (\<lambda>q n. Inr (Some []))\<rparr>)
        demo_chats ''c1'' ''iPhone 16 sentiment'' None) \<and>
   ((\<exists>client e. tavily_client demo_env_raising = Some client \<and>
        client (search_query ''iPhone 16 sentiment'' None) 10 = Inl e) \<and>
    search_reddit demo_env_raising ''iPhone 16 sentiment'' None 10 = [] \<and>
    generate_research_stream demo_env_raising demo_chats ''c1'' ''iPhone 16 sentiment'' None =
      generate_research_stream (demo_env_raising\<lparr>tavily_client := Some (\<lambda>q n. Inr (Some []))\<rparr>)
        demo_chats ''c1'' ''iPhone 16 sentiment'' None)"
proof -
  have u: "tavily_client demo_env_unconfigured = None"
    by (simp add: demo_env_unconfigured_def)
  have r: "\<exists>client e. tavily_client demo_env_raising = Some client \<and>
        client (search_query ''iPhone 16 sentiment'' None) 10 = Inl e"
    by (simp add: demo_env_raising_def)
  from u have u': "tavily_client demo_env_unconfigured = None \<or>
     (\<exists>client e. tavily_client demo_env_unconfigured = Some client \<and>
        client (search_query ''iPhone 16 sentiment'' None) 10 = Inl e)" by simp
  from r have r': "tavily_client demo_env_raising = None \<or>
     (\<exists>client e. tavily_client demo_env_raising = Some client \<and>
        client (search_query ''iPhone 16 sentiment'' None) 10 = Inl e)" by simp
  show ?thesis
    using search_fault_gives_empty_run [OF u', of demo_chats "''c1''"]
      search_fault_gives_empty_run [OF r', of demo_chats "''c1''"] u r
    by blast
qed

text \<open>
  C7: for every list of texts whose concatenation is empty or consists of whitespace
  only, the sentiment classifier returns score 50, label Neutral, confidence 0.0, and
  sends no prompt to the model.
\<close>

theorem blank_texts_skip_model:
  assumes "\<forall>c\<in>set (concat texts). py_isspace c"
  shows "analyze_sentiment E texts = (\<lparr>score = 50, label = ''Neutral'', confidence = 0\<rparr>, [])"
proof (cases "gemini_model E")
  case None
  then show ?thesis
    by (simp add: analyze_sentiment_def analyze_sentiment_try_def default_verdict_def)
next
  case (Some m)
  from assms have "\<forall>t\<in>set (take 5 texts). \<forall>c\<in>set t. py_isspace c"
    by (auto dest: in_set_takeD)
  then have "py_strip (py_join '' '' (take 5 texts)) = []"
    by (intro py_strip_blank py_join_blank)
  with Some show ?thesis
    by (simp add: analyze_sentiment_def analyze_sentiment_try_def default_verdict_def Let_def)
qed

theorem blank_texts_skip_model_witness:
  "list_all py_isspace (concat [[], ''  '', [NL]]) \<and>
   gemini_model demo_env = Some demo_gemini \<and>
   analyze_sentiment demo_env [[], ''  '', [NL]] =
     (\<lparr>score = 50, label = ''Neutral'', confidence = 0\<rparr>, [])"
proof -
  have h: "\<forall>c\<in>set (concat [[], ''  '', [NL]]). py_isspace c"
    by (simp add: py_isspace_def NL_def)
  then have l: "list_all py_isspace (concat [[], ''  '', [NL]])"
    unfolding list_all_iff .
  have g: "gemini_model demo_env = Some demo_gemini" by (simp add: demo_env_def)
  from blank_texts_skip_model [OF h, of demo_env] l g show ?thesis by blast
qed

text \<open>
  C6 (amended): the sentiment classifier never raises: whatever exception the body of
  its \<open>try\<close> raises, it returns score 50, label Neutral, confidence 0.0.  That is
  the result when the model is not configured, when the model call raises, and when
  the answer has no usable text.  When the model answers a non-blank input with a text
  on which \<open>json.loads\<close> raises \<open>JSONDecodeError\<close>, the result is score 50, label
  Neutral, confidence 0.3.
\<close>

theorem analyze_sentiment_fail_soft:
  "(\<forall>e calls. analyze_sentiment_try E texts = (Inl e, calls) \<longrightarrow>
      analyze_sentiment E texts = (\<lparr>score = 50, label = ''Neutral'', confidence = 0\<rparr>, calls)) \<and>
   (gemini_model E = None \<longrightarrow>
      fst (analyze_sentiment E texts) = \<lparr>score = 50, label = ''Neutral'', confidence = 0\<rparr>) \<and>
   (\<forall>m e. gemini_model E = Some m \<and>
      generate_content m (sentiment_prompt (py_join '' '' (take 5 texts))) = Inl e \<longrightarrow>
      fst (analyze_sentiment E texts) = \<lparr>score = 50, label = ''Neutral'', confidence = 0\<rparr>) \<and>
   (\<forall>m. gemini_model E = Some m \<and>
      generate_content m (sentiment_prompt (py_join '' '' (take 5 texts))) = Inr RespFalsy \<longrightarrow>
      fst (analyze_sentiment E texts) = \<lparr>score = 50, label = ''Neutral'', confidence = 0\<rparr>) \<and>
   (\<forall>m e. gemini_model E = Some m \<and>
      generate_content m (sentiment_prompt (py_join '' '' (take 5 texts))) = Inr (RespTextRaises e) \<longrightarrow>
      fst (analyze_sentiment E texts) = \<lparr>score = 50, label = ''Neutral'', confidence = 0\<rparr>) \<and>
   (\<forall>m t msg. gemini_model E = Some m \<and>
      py_strip (py_join '' '' (take 5 texts)) \<noteq> [] \<and>
      generate_content m (sentiment_prompt (py_join '' '' (take 5 texts))) = Inr (RespText t) \<and>
      json_loads E (strip_fences (py_strip t)) = Inl (JSONDecodeError msg) \<longrightarrow>
      fst (analyze_sentiment E texts) = \<lparr>score = 50, label = ''Neutral'', confidence = 0.3\<rparr>)"
proof -
  have a: "\<And>e calls. analyze_sentiment_try E texts = (Inl e, calls) \<Longrightarrow>
      analyze_sentiment E texts = (\<lparr>score = 50, label = ''Neutral'', confidence = 0\<rparr>, calls)"
    by (simp add: analyze_sentiment_def default_verdict_def)
  have b: "gemini_model E = None \<Longrightarrow>
      fst (analyze_sentiment E texts) = \<lparr>score = 50, label = ''Neutral'', confidence = 0\<rparr>"
    by (simp add: analyze_sentiment_def analyze_sentiment_try_def default_verdict_def)
  have c: "\<And>m r. gemini_model E = Some m \<Longrightarrow>
      generate_content m (sentiment_prompt (py_join '' '' (take 5 texts))) = r \<Longrightarrow>
      (\<forall>t. r \<noteq> Inr (RespText t)) \<Longrightarrow>
      fst (analyze_sentiment E texts) = \<lparr>score = 50, label = ''Neutral'', confidence = 0\<rparr>"
    by (auto simp: analyze_sentiment_def analyze_sentiment_try_def default_verdict_def Let_def
        split: sum.splits gen_response.splits)
  have d: "\<And>m t msg. gemini_model E = Some m \<Longrightarrow>
      py_strip (py_join '' '' (take 5 texts)) \<noteq> [] \<Longrightarrow>
      generate_content m (sentiment_prompt (py_join '' '' (take 5 texts))) = Inr (RespText t) \<Longrightarrow>
      json_loads E (strip_fences (py_strip t)) = Inl (JSONDecodeError msg) \<Longrightarrow>
      fst (analyze_sentiment E texts) = \<lparr>score = 50, label = ''Neutral'', confidence = 0.3\<rparr>"
    by (simp add: analyze_sentiment_def analyze_sentiment_try_def parse_sentiment_def
        default_verdict_def Let_def)
  show ?thesis
  proof (intro conjI allI impI)
    fix e calls assume "analyze_sentiment_try E texts = (Inl e, calls)"
    then show "analyze_sentiment E texts = (\<lparr>score = 50, label = ''Neutral'', confidence = 0\<rparr>, calls)"
      by (rule a)
  next
    assume "gemini_model E = None"
    then show "fst (analyze_sentiment E texts) = \<lparr>score = 50, label = ''Neutral'', confidence = 0\<rparr>"
      by (rule b)
  next
    fix m e
    assume "gemini_model E = Some m \<and>
      generate_content m (sentiment_prompt (py_join '' '' (take 5 texts))) = Inl e"
    then show "fst (analyze_sentiment E texts) = \<lparr>score = 50, label = ''Neutral'', confidence = 0\<rparr>"
      using c [of m "Inl e"] by simp
  next
    fix m
    assume "gemini_model E = Some m \<and>
      generate_content m (sentiment_prompt (py_join '' '' (take 5 texts))) = Inr RespFalsy"
    then show "fst (analyze_sentiment E texts) = \<lparr>score = 50, label = ''Neutral'', confidence = 0\<rparr>"
      using c [of m "Inr RespFalsy"] by simp
  next
    fix m e
    assume "gemini_model E = Some m \<and>
      generate_content m (sentiment_prompt (py_join '' '' (take 5 texts))) = Inr (RespTextRaises e)"
    then show "fst (analyze_sentiment E texts) = \<lparr>score = 50, label = ''Neutral'', confidence = 0\<rparr>"
      using c [of m "Inr (RespTextRaises e)"] by simp
  next
    fix m t msg
    assume "gemini_model E = Some m \<and>
      py_strip (py_join '' '' (take 5 texts)) \<noteq> [] \<and>
      generate_content m (sentiment_prompt (py_join '' '' (take 5 texts))) = Inr (RespText t) \<and>
      json_loads E (strip_fences (py_strip t)) = Inl (JSONDecodeError msg)"
    then show "fst (analyze_sentiment E texts) = \<lparr>score = 50, label = ''Neutral'', confidence = 0.3\<rparr>"
      using d [of m t msg] by simp
  qed
qed

theorem analyze_sentiment_fail_soft_witness:
  "(gemini_model demo_env_no_model = None \<and>
    fst (analyze_sentiment demo_env_no_model [''great phone'']) =
      \<lparr>score = 50, label = ''Neutral'', confidence = 0\<rparr>) \<and>
   ((\<exists>m e. gemini_model demo_env_model_down = Some m \<and>
       generate_content m (sentiment_prompt (py_join '' '' (take 5 [''great phone'']))) = Inl e) \<and>
    fst (analyze_sentiment demo_env_model_down [''great phone'']) =
      \<lparr>score = 50, label = ''Neutral'', confidence = 0\<rparr>) \<and>
   (gemini_model demo_env = Some demo_gemini \<and>
    py_strip (py_join '' '' (take 5 [''great phone''])) \<noteq> [] \<and>
    generate_content demo_gemini (sentiment_prompt (py_join '' '' (take 5 [''great phone'']))) =
      Inr (RespText ''not json'') \<and>
    json_loads demo_env (strip_fences (py_strip ''not json'')) = Inl (JSONDecodeError ''Expecting value'') \<and>
    fst (analyze_sentiment demo_env [''great phone'']) =
      \<lparr>score = 50, label = ''Neutral'', confidence = 0.3\<rparr>)"
proof -
  have n: "gemini_model demo_env_no_model = None"
    by (simp add: demo_env_no_model_def)
  let ?down = "demo_gemini\<lparr>generate_content := (\<lambda>prompt. Inl (OtherException ''503 unavailable''))\<rparr>"
  have d1: "gemini_model demo_env_model_down = Some ?down"
    by (simp add: demo_env_model_down_def)
  have d2: "generate_content ?down (sentiment_prompt (py_join '' '' (take 5 [''great phone'']))) =
      Inl (OtherException ''503 unavailable'')" by simp
  have g: "gemini_model demo_env = Some demo_gemini" by (simp add: demo_env_def)
  have s: "py_strip (py_join '' '' (take 5 [''great phone''])) \<noteq> []"
    using great_phone_text by simp
  have r: "generate_content demo_gemini (sentiment_prompt (py_join '' '' (take 5 [''great phone'']))) =
      Inr (RespText ''not json'')" by (simp add: demo_gemini_def)
  have j: "json_loads demo_env (strip_fences (py_strip ''not json'')) = Inl (JSONDecodeError ''Expecting value'')"
    unfolding not_json_text by (simp add: demo_env_def demo_json_loads_def demo_verdict_json_def)
  from analyze_sentiment_fail_soft [of demo_env_no_model "[''great phone'']"] n
  have 1: "fst (analyze_sentiment demo_env_no_model [''great phone'']) =
      \<lparr>score = 50, label = ''Neutral'', confidence = 0\<rparr>" by blast
  from analyze_sentiment_fail_soft [of demo_env_model_down "[''great phone'']"] d1 d2
  have 2: "fst (analyze_sentiment demo_env_model_down [''great phone'']) =
      \<lparr>score = 50, label = ''Neutral'', confidence = 0\<rparr>" by blast
  from analyze_sentiment_fail_soft [of demo_env "[''great phone'']"] g s r j
  have 3: "fst (analyze_sentiment demo_env [''great phone'']) =
      \<lparr>score = 50, label = ''Neutral'', confidence = 0.3\<rparr>" by blast
  from n 1 d1 d2 2 g s r j 3 show ?thesis by blast
qed

text \<open>
  The claim as stated gives confidence 0.3 to every answer that is not the expected JSON
  object.  It fails on the answer \<open>[]\<close>: \<open>json.loads\<close> returns a list, \<open>.get\<close> on
  it raises \<open>AttributeError\<close>, which the outer handler turns into confidence 0.0.
\<close>

theorem unexpected_json_counterexample:
  "gemini_model demo_env_array =
     Some (demo_gemini\<lparr>generate_content := (\<lambda>prompt. Inr (RespText ''[]''))\<rparr>) \<and>
   json_loads demo_env_array (strip_fences (py_strip ''[]'')) = Inr (JArr []) \<and>
   fst (analyze_sentiment demo_env_array [''great phone'']) =
     \<lparr>score = 50, label = ''Neutral'', confidence = 0\<rparr> \<and>
   fst (analyze_sentiment demo_env_array [''great phone'']) \<noteq>
     \<lparr>score = 50, label = ''Neutral'', confidence = 0.3\<rparr>"
proof -
  have g: "gemini_model demo_env_array =
     Some (demo_gemini\<lparr>generate_content := (\<lambda>prompt. Inr (RespText ''[]''))\<rparr>)"
    by (simp add: demo_env_array_def)
  have j: "json_loads demo_env_array (strip_fences (py_strip ''[]'')) = Inr (JArr [])"
    unfolding array_text
    by (simp add: demo_env_array_def demo_env_def demo_json_loads_def demo_verdict_json_def)
  have p: "py_strip ''[]'' = ''[]''" by (simp add: py_strip_def py_isspace_def)
  have j': "json_loads demo_env_array (strip_fences ''[]'') = Inr (JArr [])"
    using j unfolding p .
  have a: "fst (analyze_sentiment demo_env_array [''great phone'']) =
     \<lparr>score = 50, label = ''Neutral'', confidence = 0\<rparr>"
    unfolding analyze_sentiment_def analyze_sentiment_try_def g Let_def
    using great_phone_text
    by (simp add: p parse_sentiment_def j' default_verdict_def)
  from g j a show ?thesis by simp
qed

text \<open>
  C4: encoding a fragment as a TextFragment frame and decoding the frame should give
  the fragment back.  The code does not: the encoder leaves a backslash as it is, so
  the decoder reads a backslash followed by \<open>n\<close> in the fragment as an escaped
  newline.  On the fragment made of a double quote, a newline, a backslash and the
  letter \<open>n\<close> the decoded text is a double quote and two newlines.
\<close>

theorem backslash_n_roundtrip_fails:
  "decode_text (frame_data (text_frame [DQ, NL, BSL, CHR ''n''])) = [DQ, NL, NL] \<and>
   decode_text (frame_data (text_frame [DQ, NL, BSL, CHR ''n''])) \<noteq> [DQ, NL, BSL, CHR ''n'']"
proof -
  have e: "escape_text [DQ, NL, BSL, CHR ''n''] = [BSL, DQ, BSL, CHR ''n'', BSL, CHR ''n'']"
    by (simp add: escape_text_def py_replace_def DQ_def NL_def BSL_def)
  have d: "decode_text (DQ # [BSL, DQ, BSL, CHR ''n'', BSL, CHR ''n''] @ [DQ]) = [DQ, NL, NL]"
    by (simp add: decode_text_def startswith_def endswith_def py_replace_def DQ_def NL_def BSL_def)
  show ?thesis
    unfolding text_frame_def frame_data_quoted e d
    by (simp add: NL_def BSL_def)
qed

text \<open>
  C9: every Source created without an id should receive an id of its own.  The code
  does not: the default \<open>str(uuid.uuid4())\<close> is computed once, when the class is
  defined, so the two different sources persisted by a run over two results carry the
  same id.
\<close>

theorem sources_share_one_id:
  "map src_title (chat_sources (the
      (snd (generate_research_stream demo_env demo_chats ''c1'' ''iPhone 16 sentiment'' None) ''c1''))) =
     [''iPhone 16 review'', ''No Title''] \<and>
   map src_id (chat_sources (the
      (snd (generate_research_stream demo_env demo_chats ''c1'' ''iPhone 16 sentiment'' None) ''c1''))) =
     [''a2b7'', ''a2b7'']"
proof -
  have s: "snd (generate_research_stream demo_env demo_chats ''c1'' ''iPhone 16 sentiment'' None) =
        snd (research_stream demo_env demo_chats ''c1'' ''iPhone 16 sentiment'' None demo_hits)"
    by (simp add: generate_research_stream_def demo_search)
  have c: "chat_sources demo_chat = []" by (simp add: demo_chat_def)
  from research_stream_store [where E = demo_env and cs = demo_chats and cid = "''c1''"
        and c = demo_chat and q = "''iPhone 16 sentiment''" and flt = None,
        OF demo_hits_nonempty demo_no_fault demo_chat_present]
  obtain fs prepared where
    p: "prepare_context demo_env demo_hits = Inr prepared" and
    st: "chat_sources (the
      (snd (research_stream demo_env demo_chats ''c1'' ''iPhone 16 sentiment'' None demo_hits) ''c1'')) =
        chat_sources demo_chat @ map fst prepared"
    by auto
  from demo_prepared have
    m: "map (\<lambda>p. (src_id (fst p), src_title (fst p))) prepared =
       [(''a2b7'', ''iPhone 16 review''), (''a2b7'', ''No Title'')]"
    unfolding p by simp
  have "map src_title (map fst prepared) = map snd (map (\<lambda>p. (src_id (fst p), src_title (fst p))) prepared)"
    by simp
  then have t: "map src_title (map fst prepared) = [''iPhone 16 review'', ''No Title'']"
    unfolding m by simp
  have "map src_id (map fst prepared) = map fst (map (\<lambda>p. (src_id (fst p), src_title (fst p))) prepared)"
    by simp
  then have i: "map src_id (map fst prepared) = [''a2b7'', ''a2b7'']"
    unfolding m by simp
  show ?thesis
    unfolding s st c using t i by simp
qed





end
